theory Spec2Isabelle
  imports Complex_Main "HOL-Library.Multiset" "HOL-Library.Log_Nat"
begin

section \<open>DevGotchi: the avatar state engine of \<open>out/extension.js\<close>\<close>

text \<open>
  The engine is the class \<open>DeveloperManager\<close> of \<open>out/extension.js\<close>. It owns one
  mutable record (\<open>this.developer\<close>) and one counter (\<open>this.lastErrorCount\<close>); every
  method mutates them in place. Here every method is a function from the state before
  the call to the state after it.

  Conventions of the embedding:
  \<^item> JavaScript numbers that hold stats, quest progress and scores are \<open>real\<close>. Where
    a result is floored into XP, the rounding of each double operation decides the
    integer that comes out, so the XP formula of \<open>addXP\<close> and the boosts of
    \<open>giveCoffee\<close> that feed it round every operation to binary64 (\<open>jsAdd\<close>, \<open>jsMul\<close>,
    \<open>jsDiv\<close>). Elsewhere exact arithmetic stands for the doubles. \<open>NaN\<close>, \<open>Infinity\<close>,
    overflow and subnormals are outside the model. Numbers that the code only ever
    produces as integers (\<open>Math.floor\<close> results, \<open>++\<close> counters, millisecond timestamps,
    bean prices) are \<open>int\<close>.
  \<^item> A property that may be \<open>undefined\<close> on the live record is an \<open>option\<close>.
  \<^item> \<open>Date.now()\<close>, \<open>new Date().getHours()\<close> and the outcome of the random sort are
    inputs of the call (record \<open>env\<close>); one call reads one clock value.
  \<^item> \<open>saveDeveloper\<close>, notifications and status-bar messages do not change the engine
    state and are left out. Emoji strings are written as their code points.
\<close>

subsection \<open>Data model\<close>

datatype mood = Productive | Neutral | Stressed | Tired | BurntOut | Caffeinated | Sleeping

datatype quest_type = Save | Commit | Fix | Time

text \<open>A quest id is the string \<open>quest_${Date.now()}_${i}\<close>: the pair of its two numbers.\<close>

record quest =
  quest_id :: "int \<times> nat"
  description :: string
  qtype :: quest_type
  target :: int
  progress :: real
  reward :: int
  completed :: bool

record template =
  t_type :: quest_type
  t_desc :: string
  t_target :: int
  t_reward :: int

record developer =
  energy :: real
  motivation :: real
  focus :: real
  health :: real
  xp :: int
  level :: int
  lastUpdated :: int
  mood :: mood
  role :: string
  name :: string
  coffee :: int
  skills :: "string list"
  inventory :: "string list"
  lastDailyBonus :: int
  streak :: int
  quests :: "quest list"
  questStreak :: "int option"
  dailyQuestsCompleted :: "bool option"
  tutorialCompleted :: "bool option"

record manager =
  dev :: developer
  lastErrorCount :: int

record env =
  now :: int
  hour :: int
  shuffled :: "template list"

text \<open>
  The persisted blob (\<open>globalState.get('developer')\<close>): the eleven fields of the first
  release are always there, the eight later ones may be missing.
\<close>

record blob =
  b_energy :: real
  b_motivation :: real
  b_focus :: real
  b_health :: real
  b_xp :: int
  b_level :: int
  b_lastUpdated :: int
  b_mood :: mood
  b_role :: string
  b_name :: string
  b_coffee :: int
  b_skills :: "string list option"
  b_inventory :: "string list option"
  b_lastDailyBonus :: "int option"
  b_streak :: "int option"
  b_quests :: "quest list option"
  b_questStreak :: "int option"
  b_dailyQuestsCompleted :: "bool option"
  b_tutorialCompleted :: "bool option"

text \<open>
  The two static catalogs, without their \<open>description\<close> strings, which the engine never
  reads.
\<close>

record skill =
  skill_id :: string
  skill_name :: string
  skill_cost :: int

datatype item_type = Skin | Furniture | Accessory

record shop_item =
  item_id :: string
  item_name :: string
  item_type :: item_type
  item_cost :: int
  item_emoji :: "string option"

definition SKILLS :: "skill list" where
  "SKILLS =
    [\<lparr>skill_id = ''caffeine_tolerance'', skill_name = ''Caffeine Tolerance'', skill_cost = 50\<rparr>,
     \<lparr>skill_id = ''iron_focus'', skill_name = ''Iron Focus'', skill_cost = 75\<rparr>,
     \<lparr>skill_id = ''bug_slayer'', skill_name = ''Bug Slayer'', skill_cost = 100\<rparr>]"

definition SHOP_ITEMS :: "shop_item list" where
  "SHOP_ITEMS =
    [\<lparr>item_id = ''skin_suit'', item_name = ''Business Suit'', item_type = Skin,
      item_cost = 150, item_emoji = Some ''U+1F574 U+FE0F''\<rparr>,
     \<lparr>item_id = ''skin_space'', item_name = ''Space Suit'', item_type = Skin,
      item_cost = 300, item_emoji = Some ''U+1F468 U+200D U+1F680''\<rparr>,
     \<lparr>item_id = ''furn_chair'', item_name = ''Ergo Chair'', item_type = Furniture,
      item_cost = 200, item_emoji = None\<rparr>,
     \<lparr>item_id = ''acc_keyboard'', item_name = ''Mech Keyboard'', item_type = Accessory,
      item_cost = 250, item_emoji = None\<rparr>]"

text \<open>The literal returned by \<open>loadDeveloper\<close> when nothing is persisted (lines 144-164).\<close>

definition defaultDeveloper :: "int \<Rightarrow> developer" where
  "defaultDeveloper t =
    \<lparr>energy = 100, motivation = 100, focus = 100, health = 100, xp = 0, level = 1,
     lastUpdated = t, mood = Productive, role = ''U+1F468 U+200D U+1F4BB'', name = ''Dev'',
     coffee = 50, skills = [], inventory = [], lastDailyBonus = 0, streak = 0, quests = [],
     questStreak = Some 0, dailyQuestsCompleted = Some False, tutorialCompleted = Some False\<rparr>"

text \<open>
  The literal assigned by \<open>resetProgress\<close> (lines 289-306). It has no \<open>questStreak\<close>,
  \<open>dailyQuestsCompleted\<close> or \<open>tutorialCompleted\<close> property: reading them gives
  \<open>undefined\<close>.
\<close>

definition resetDeveloper :: "int \<Rightarrow> developer" where
  "resetDeveloper t =
    \<lparr>energy = 100, motivation = 100, focus = 100, health = 100, xp = 0, level = 1,
     lastUpdated = t, mood = Productive, role = ''U+1F468 U+200D U+1F4BB'', name = ''Dev'',
     coffee = 50, skills = [], inventory = [], lastDailyBonus = 0, streak = 0, quests = [],
     questStreak = None, dailyQuestsCompleted = None, tutorialCompleted = None\<rparr>"

subsection \<open>Loading\<close>

text \<open>
  \<open>loadDeveloper\<close> (lines 122-165). \<open>!saved.f\<close> holds when \<open>f\<close> is missing and, for a
  number, when it is \<open>0\<close>; an array, even an empty one, is truthy. The last three tests
  are \<open>=== undefined\<close>.
\<close>

definition loadDeveloper :: "int \<Rightarrow> blob option \<Rightarrow> developer" where
  "loadDeveloper t saved =
    (case saved of
       None \<Rightarrow> defaultDeveloper t
     | Some b \<Rightarrow>
        \<lparr>energy = b_energy b, motivation = b_motivation b, focus = b_focus b,
         health = b_health b, xp = b_xp b, level = b_level b,
         lastUpdated = b_lastUpdated b, mood = b_mood b, role = b_role b, name = b_name b,
         coffee = b_coffee b,
         skills = (case b_skills b of None \<Rightarrow> [] | Some xs \<Rightarrow> xs),
         inventory = (case b_inventory b of None \<Rightarrow> [] | Some xs \<Rightarrow> xs),
         lastDailyBonus =
           (case b_lastDailyBonus b of None \<Rightarrow> 0 | Some v \<Rightarrow> if v = 0 then 0 else v),
         streak = (case b_streak b of None \<Rightarrow> 0 | Some v \<Rightarrow> if v = 0 then 0 else v),
         quests = (case b_quests b of None \<Rightarrow> [] | Some qs \<Rightarrow> qs),
         questStreak = (case b_questStreak b of None \<Rightarrow> Some 0 | Some v \<Rightarrow> Some v),
         dailyQuestsCompleted =
           (case b_dailyQuestsCompleted b of None \<Rightarrow> Some False | Some v \<Rightarrow> Some v),
         tutorialCompleted =
           (case b_tutorialCompleted b of None \<Rightarrow> Some False | Some v \<Rightarrow> Some v)\<rparr>)"

subsection \<open>Double arithmetic\<close>

text \<open>
  A JavaScript number is an IEEE 754 binary64 value, and each arithmetic operation
  returns the exact result rounded to the nearest such value, ties to even. The exponent
  range is not bounded here.
\<close>

definition pow2 :: "int \<Rightarrow> real" where
  "pow2 k = (if 0 \<le> k then 2 ^ nat k else 1 / 2 ^ nat (- k))"

text \<open>\<open>exponent x\<close> is the \<open>e\<close> with \<open>2\<^sup>e \<le> |x| < 2\<^sup>e\<^sup>+\<^sup>1\<close>, for \<open>x \<noteq> 0\<close>.\<close>

definition exponent :: "real \<Rightarrow> int" where
  "exponent x =
    (if 1 \<le> \<bar>x\<bar> then bitlen \<lfloor>\<bar>x\<bar>\<rfloor> - 1 else - bitlen (\<lceil>1 / \<bar>x\<bar>\<rceil> - 1))"

text \<open>The nearest integer, a tie going to the even one.\<close>

definition roundEven :: "real \<Rightarrow> int" where
  "roundEven y =
    (let f = \<lfloor>y\<rfloor>
     in if y - real_of_int f < 1 / 2 then f
        else if 1 / 2 < y - real_of_int f then f + 1
        else if even f then f else f + 1)"

text \<open>The nearest number with 53 significant bits: the spacing at \<open>x\<close> is \<open>2\<^sup>e\<^sup>-\<^sup>5\<^sup>2\<close>.\<close>

definition binary64 :: "real \<Rightarrow> real" where
  "binary64 x =
    (if x = 0 then 0
     else (let u = pow2 (exponent x - 52) in real_of_int (roundEven (x / u)) * u))"

text \<open>\<open>+\<close>, \<open>*\<close> and \<open>/\<close> on doubles: the exact result, rounded once.\<close>

definition jsAdd :: "real \<Rightarrow> real \<Rightarrow> real" where
  "jsAdd a b = binary64 (a + b)"

definition jsMul :: "real \<Rightarrow> real \<Rightarrow> real" where
  "jsMul a b = binary64 (a * b)"

definition jsDiv :: "real \<Rightarrow> real \<Rightarrow> real" where
  "jsDiv a b = binary64 (a / b)"

subsection \<open>XP and levelling\<close>

text \<open>The \<open>while\<close> loop of \<open>addXP\<close> (lines 490-496) on the pair \<open>(xp, level)\<close>.\<close>

function levelLoop :: "int \<Rightarrow> int \<Rightarrow> int \<times> int" where
  "levelLoop x l = (if x \<ge> l * 100 then levelLoop (x - l * 100) (l + 1) else (x, l))"
  by pat_completeness auto
termination
  by (relation "measures [\<lambda>(x, l). nat (1 - l), \<lambda>(x, l). nat x]") auto

declare levelLoop.simps [simp del]

text \<open>
  The amount added to \<open>xp\<close> on line 488: \<open>Math.floor\<close> of the product
  \<open>amount * (1 + energy / 100) * (1 + focus / 100) * (1 + motivation / 100)\<close>, evaluated
  from left to right in doubles.
\<close>

definition momentum :: "real \<Rightarrow> developer \<Rightarrow> int" where
  "momentum amount d =
    \<lfloor>jsMul (jsMul (jsMul amount (jsAdd 1 (jsDiv (energy d) 100)))
                   (jsAdd 1 (jsDiv (focus d) 100)))
            (jsAdd 1 (jsDiv (motivation d) 100))\<rfloor>"

definition addXP :: "real \<Rightarrow> developer \<Rightarrow> developer" where
  "addXP amount d =
    (let x = xp d + momentum amount d;
         (x', l') = levelLoop x (level d)
     in d\<lparr>xp := x', level := l'\<rparr>)"

subsection \<open>Quests\<close>

text \<open>
  \<open>!x\<close> on a property that may be \<open>undefined\<close>, and \<open>x || 0\<close> on a counter that may be.
\<close>

definition truthy :: "bool option \<Rightarrow> bool" where
  "truthy b = (case b of None \<Rightarrow> False | Some v \<Rightarrow> v)"

definition orZero :: "int option \<Rightarrow> int" where
  "orZero n = (case n of None \<Rightarrow> 0 | Some v \<Rightarrow> v)"

text \<open>
  The body of the \<open>forEach\<close> of \<open>updateQuestProgress\<close> (lines 387-398) for one quest: the
  quest after it, and the beans it pays into \<open>developer.coffee\<close>.
\<close>

definition questStep :: "quest_type \<Rightarrow> real \<Rightarrow> quest \<Rightarrow> quest" where
  "questStep ty amount q =
    (if qtype q = ty \<and> \<not> completed q then
       (if progress q + amount \<ge> real_of_int (target q)
        then q\<lparr>progress := real_of_int (target q), completed := True\<rparr>
        else q\<lparr>progress := progress q + amount\<rparr>)
     else q)"

definition questPayout :: "quest_type \<Rightarrow> real \<Rightarrow> quest \<Rightarrow> int" where
  "questPayout ty amount q =
    (if qtype q = ty \<and> \<not> completed q \<and> progress q + amount \<ge> real_of_int (target q)
     then reward q else 0)"

definition updateQuestProgress :: "quest_type \<Rightarrow> real \<Rightarrow> developer \<Rightarrow> developer" where
  "updateQuestProgress ty amount d =
    (let d1 = d\<lparr>quests := map (questStep ty amount) (quests d),
                 coffee := coffee d + sum_list (map (questPayout ty amount) (quests d))\<rparr>
     in if \<not> truthy (dailyQuestsCompleted d1) \<and> length (quests d1) > 0
           \<and> list_all completed (quests d1)
        then (let qs = orZero (questStreak d1) + 1;
                  bonus = 50 + qs * 10
              in d1\<lparr>dailyQuestsCompleted := Some True, questStreak := Some qs,
                     coffee := coffee d1 + bonus\<rparr>)
        else d1)"

text \<open>The eight templates of \<open>generateDailyQuests\<close> (lines 260-269).\<close>

definition templates :: "template list" where
  "templates =
    [\<lparr>t_type = Save, t_desc = ''Save Master: Save 30 files'', t_target = 30, t_reward = 15\<rparr>,
     \<lparr>t_type = Save, t_desc = ''Typing Machine: Save 50 files'', t_target = 50, t_reward = 25\<rparr>,
     \<lparr>t_type = Commit, t_desc = ''Committer: Push 2 commits'', t_target = 2, t_reward = 30\<rparr>,
     \<lparr>t_type = Commit, t_desc = ''Ship It: Push 5 commits'', t_target = 5, t_reward = 60\<rparr>,
     \<lparr>t_type = Fix, t_desc = ''Bug Zapper: Fix 3 errors'', t_target = 3, t_reward = 20\<rparr>,
     \<lparr>t_type = Fix, t_desc = ''Quality Control: Fix 10 errors'', t_target = 10, t_reward = 50\<rparr>,
     \<lparr>t_type = Time, t_desc = ''Deep Work: Code for 30 minutes'', t_target = 30, t_reward = 20\<rparr>,
     \<lparr>t_type = Time, t_desc = ''Marathon: Code for 60 minutes'', t_target = 60, t_reward = 45\<rparr>]"

text \<open>
  \<open>templates.sort(() => 0.5 - Math.random())\<close> reorders the array; which order comes out
  is the environment's choice (\<open>shuffled\<close>), and a sort returns a permutation.
\<close>

definition validShuffle :: "env \<Rightarrow> bool" where
  "validShuffle e = (mset (shuffled e) = mset templates)"

definition newQuest :: "int \<Rightarrow> template \<times> nat \<Rightarrow> quest" where
  "newQuest t p =
    \<lparr>quest_id = (t, snd p), description = t_desc (fst p), qtype = t_type (fst p),
     target = t_target (fst p), progress = 0, reward = t_reward (fst p), completed = False\<rparr>"

definition generateDailyQuests :: "env \<Rightarrow> developer \<Rightarrow> developer" where
  "generateDailyQuests e d =
    (let d = (if streak d = 1 \<or> \<not> truthy (dailyQuestsCompleted d)
              then d\<lparr>questStreak := Some 0\<rparr> else d);
         d = d\<lparr>dailyQuestsCompleted := Some False\<rparr>;
         picked = take 3 (shuffled e)
     in d\<lparr>quests := map (newQuest (now e)) (zip picked [0..<length picked])\<rparr>)"

definition oneDay :: int where
  "oneDay = 24 * 60 * 60 * 1000"

definition twoDays :: int where
  "twoDays = 48 * 60 * 60 * 1000"

text \<open>
  \<open>checkDailyBonus\<close> (lines 230-249). \<open>lastDailyBonus || 0\<close> and \<open>streak || 0\<close> are the
  number itself.
\<close>

definition checkDailyBonus :: "env \<Rightarrow> developer \<Rightarrow> developer" where
  "checkDailyBonus e d =
    (let lastBonus = lastDailyBonus d
     in if now e - lastBonus \<ge> oneDay then
          (let d = (if lastBonus > 0 \<and> now e - lastBonus < twoDays
                    then d\<lparr>streak := streak d + 1\<rparr> else d\<lparr>streak := 1\<rparr>);
               bonus = 20 + streak d * 5;
               d = d\<lparr>coffee := coffee d + bonus\<rparr>;
               d = d\<lparr>lastDailyBonus := now e\<rparr>
           in generateDailyQuests e d)
        else d)"

subsection \<open>The tick\<close>

definition calculateMood :: "int \<Rightarrow> developer \<Rightarrow> mood" where
  "calculateMood h d =
    (if h \<ge> 22 \<or> h < 6 then Sleeping
     else if health d < 30 then BurntOut
     else if energy d < 30 then Tired
     else if focus d < 30 then Stressed
     else if coffee d > 80 then Caffeinated
     else if motivation d > 70 then Productive
     else Neutral)"

definition hoursPassed :: "env \<Rightarrow> developer \<Rightarrow> real" where
  "hoursPassed e d = real_of_int (now e - lastUpdated d) / (1000 * 60 * 60)"

text \<open>Lines 181-197 of \<open>updateStats\<close>: the decay and the linter stress.\<close>

definition applyDecay :: "env \<Rightarrow> manager \<Rightarrow> developer" where
  "applyDecay e m =
    (let d = dev m;
         h = hoursPassed e d;
         energyDecay = (if ''furn_chair'' \<in> set (inventory d) then 4 * 0.85 else 4);
         motivationDecay = (if ''acc_keyboard'' \<in> set (inventory d) then 2 * 0.85 else 2);
         d = d\<lparr>energy := max 0 (energy d - h * energyDecay)\<rparr>;
         d = d\<lparr>motivation := max 0 (motivation d - h * motivationDecay)\<rparr>;
         focusDecay = (if ''iron_focus'' \<in> set (skills d) then 2.1 else 3);
         d = d\<lparr>focus := max 0 (focus d - h * focusDecay)\<rparr>
     in if lastErrorCount m > 0 then
          (let stressFactor = real_of_int (lastErrorCount m) * 0.05;
               d = d\<lparr>energy := max 0 (energy d - stressFactor)\<rparr>
           in d\<lparr>motivation := max 0 (motivation d - stressFactor)\<rparr>)
        else d)"

text \<open>
  Lines 198-201: a tick less than 0.083 hours after the last one counts as active coding
  time. \<open>beforeBonus\<close> is the record at the moment \<open>updateStats\<close> calls \<open>checkDailyBonus\<close>.
\<close>

definition beforeBonus :: "env \<Rightarrow> manager \<Rightarrow> developer" where
  "beforeBonus e m =
    (let h = hoursPassed e (dev m);
         d = applyDecay e m
     in if h < 0.083 then updateQuestProgress Time (h * 60) d else d)"

text \<open>Lines 202-205 of \<open>updateStats\<close>: the daily bonus, then the derived fields.\<close>

definition updateStats :: "env \<Rightarrow> manager \<Rightarrow> manager" where
  "updateStats e m =
    (let d = checkDailyBonus e (beforeBonus e m);
         d = d\<lparr>health := (energy d + motivation d + focus d) / 3\<rparr>;
         d = d\<lparr>mood := calculateMood (hour e) d\<rparr>;
         d = d\<lparr>lastUpdated := now e\<rparr>
     in m\<lparr>dev := d\<rparr>)"

text \<open>The constructor (lines 113-118): load, then one tick with \<open>lastErrorCount = 0\<close>.\<close>

definition construct :: "env \<Rightarrow> blob option \<Rightarrow> manager" where
  "construct e saved = updateStats e \<lparr>dev = loadDeveloper (now e) saved, lastErrorCount = 0\<rparr>"

text \<open>
  \<open>resetProgress\<close> (lines 286-311); \<open>yes\<close> is the user's answer to the warning dialog.
\<close>

definition resetProgress :: "env \<Rightarrow> bool \<Rightarrow> manager \<Rightarrow> manager" where
  "resetProgress e yes m =
    (if yes then updateStats e (m\<lparr>dev := resetDeveloper (now e)\<rparr>) else m)"

subsection \<open>Actions and events\<close>

text \<open>
  A handler that returns \<open>{success, message}\<close> returns the \<open>success\<close> flag with the new
  state.
\<close>

definition giveCoffee :: "developer \<Rightarrow> bool \<times> developer" where
  "giveCoffee d =
    (if coffee d < 10 then (False, d)
     else
       (let d = d\<lparr>coffee := coffee d - 10\<rparr>;
            energyBoost = (if ''caffeine_tolerance'' \<in> set (skills d) then 52 else 35);
            d = d\<lparr>energy := min 100 (jsAdd (energy d) energyBoost)\<rparr>;
            d = d\<lparr>focus := min 100 (jsAdd (focus d) 20)\<rparr>;
            d = d\<lparr>motivation := min 100 (jsAdd (motivation d) 10)\<rparr>
        in (True, addXP 5 d)))"

definition takeBreak :: "developer \<Rightarrow> bool \<times> developer" where
  "takeBreak d =
    (if energy d = 100 \<and> motivation d = 100 then (False, d)
     else
       (let d = addXP (real_of_int
                  \<lfloor>max (max 5 (5 * (100 - energy d) / 40)) (5 * (100 - motivation d) / 15)\<rfloor>) d;
            d = d\<lparr>energy := min 100 (energy d + 40)\<rparr>;
            d = d\<lparr>motivation := min 100 (motivation d + 15)\<rparr>;
            d = d\<lparr>focus := max 0 (focus d - 5)\<rparr>
        in (True, d)))"

definition onCodeSaved :: "developer \<Rightarrow> developer" where
  "onCodeSaved d =
    (let d = d\<lparr>motivation := min 100 (motivation d + 3)\<rparr>;
         d = d\<lparr>coffee := coffee d + 1\<rparr>;
         d = addXP 3 d
     in updateQuestProgress Save 1 d)"

definition onGitCommit :: "developer \<Rightarrow> developer" where
  "onGitCommit d =
    (let d = d\<lparr>motivation := min 100 (motivation d + 20)\<rparr>;
         d = d\<lparr>coffee := coffee d + 5\<rparr>;
         d = addXP 50 d
     in updateQuestProgress Commit 1 d)"

definition setInitialErrorCount :: "int \<Rightarrow> manager \<Rightarrow> manager" where
  "setInitialErrorCount c m = m\<lparr>lastErrorCount := c\<rparr>"

definition updateErrorCount :: "int \<Rightarrow> manager \<Rightarrow> manager" where
  "updateErrorCount currentErrors m =
    (let diff = currentErrors - lastErrorCount m;
         d = dev m;
         d = (if diff < 0 then
                (let fixed = \<bar>diff\<bar>;
                     xpMult = (if ''bug_slayer'' \<in> set (skills d) then 2 else 1);
                     d = addXP (real_of_int (fixed * 5 * xpMult)) d;
                     d = d\<lparr>motivation := min 100 (motivation d + real_of_int fixed)\<rparr>
                 in updateQuestProgress Fix (real_of_int fixed) d)
              else if diff > 0 then d\<lparr>focus := max 0 (focus d - real_of_int diff * 0.5)\<rparr>
              else d)
     in m\<lparr>dev := d, lastErrorCount := currentErrors\<rparr>)"

definition completeTutorial :: "developer \<Rightarrow> developer" where
  "completeTutorial d = d\<lparr>tutorialCompleted := Some True\<rparr>"

definition unlockSkill :: "string \<Rightarrow> developer \<Rightarrow> bool \<times> developer" where
  "unlockSkill skillId d =
    (case find (\<lambda>s. skill_id s = skillId) SKILLS of
       None \<Rightarrow> (False, d)
     | Some sk \<Rightarrow>
        if skillId \<in> set (skills d) then (False, d)
        else if coffee d < skill_cost sk then (False, d)
        else (True, d\<lparr>coffee := coffee d - skill_cost sk, skills := skills d @ [skillId]\<rparr>))"

definition buyItem :: "string \<Rightarrow> developer \<Rightarrow> bool \<times> developer" where
  "buyItem itemId d =
    (case find (\<lambda>i. item_id i = itemId) SHOP_ITEMS of
       None \<Rightarrow> (False, d)
     | Some it \<Rightarrow>
        if itemId \<in> set (inventory d) then (False, d)
        else if coffee d < item_cost it then (False, d)
        else
          (let d = d\<lparr>coffee := coffee d - item_cost it, inventory := inventory d @ [itemId]\<rparr>
           in (True,
               case item_emoji it of
                 Some em \<Rightarrow> if item_type it = Skin \<and> em \<noteq> [] then d\<lparr>role := em\<rparr> else d
               | None \<Rightarrow> d)))"

definition equipItem :: "string \<Rightarrow> developer \<Rightarrow> bool \<times> developer" where
  "equipItem itemId d =
    (case find (\<lambda>i. item_id i = itemId) SHOP_ITEMS of
       None \<Rightarrow> (False, d)
     | Some it \<Rightarrow>
        if itemId \<notin> set (inventory d) then (False, d)
        else
          (case item_emoji it of
             Some em \<Rightarrow> if item_type it \<noteq> Skin \<or> em = [] then (False, d)
                        else (True, d\<lparr>role := em\<rparr>)
           | None \<Rightarrow> (False, d)))"

text \<open>
  \<open>challengeCompleted\<close> (lines 468-475) returns \<open>coffeeEarned\<close>; \<open>challengeXP\<close> is the
  argument it passes to \<open>addXP\<close>.
\<close>

definition challengeXP :: "real \<Rightarrow> real" where
  "challengeXP score = score + score * score / 100 + score * score * score / 100000"

definition challengeCompleted :: "real \<Rightarrow> developer \<Rightarrow> int \<times> developer" where
  "challengeCompleted score d =
    (let coffeeEarned = \<lfloor>score / 10\<rfloor>;
         d = d\<lparr>coffee := coffee d + coffeeEarned\<rparr>;
         d = d\<lparr>motivation := min 100 (motivation d + 20)\<rparr>;
         d = addXP (challengeXP score) d
     in (coffeeEarned, d))"

definition renameDeveloper :: "string \<Rightarrow> developer \<Rightarrow> bool \<times> developer" where
  "renameDeveloper newName d = (True, d\<lparr>name := newName\<rparr>)"

subsection \<open>The operations of the engine\<close>

text \<open>
  Every public method of \<open>DeveloperManager\<close> that changes the state, as one step on the
  manager. A handler that only touches \<open>this.developer\<close> is lifted by \<open>onDeveloper\<close>.
\<close>

datatype action =
    UpdateStats env
  | GiveCoffee
  | TakeBreak
  | OnCodeSaved
  | OnGitCommit
  | SetInitialErrorCount int
  | UpdateErrorCount int
  | CompleteTutorial
  | UnlockSkill string
  | BuyItem string
  | EquipItem string
  | ChallengeCompleted real
  | RenameDeveloper string
  | ResetProgress env bool

definition onDeveloper :: "(developer \<Rightarrow> developer) \<Rightarrow> manager \<Rightarrow> manager" where
  "onDeveloper f m = m\<lparr>dev := f (dev m)\<rparr>"

fun perform :: "action \<Rightarrow> manager \<Rightarrow> manager" where
  "perform (UpdateStats e) m = updateStats e m"
| "perform GiveCoffee m = onDeveloper (\<lambda>d. snd (giveCoffee d)) m"
| "perform TakeBreak m = onDeveloper (\<lambda>d. snd (takeBreak d)) m"
| "perform OnCodeSaved m = onDeveloper onCodeSaved m"
| "perform OnGitCommit m = onDeveloper onGitCommit m"
| "perform (SetInitialErrorCount c) m = setInitialErrorCount c m"
| "perform (UpdateErrorCount c) m = updateErrorCount c m"
| "perform CompleteTutorial m = onDeveloper completeTutorial m"
| "perform (UnlockSkill i) m = onDeveloper (\<lambda>d. snd (unlockSkill i d)) m"
| "perform (BuyItem i) m = onDeveloper (\<lambda>d. snd (buyItem i d)) m"
| "perform (EquipItem i) m = onDeveloper (\<lambda>d. snd (equipItem i d)) m"
| "perform (ChallengeCompleted score) m = onDeveloper (\<lambda>d. snd (challengeCompleted score d)) m"
| "perform (RenameDeveloper n) m = onDeveloper (\<lambda>d. snd (renameDeveloper n d)) m"
| "perform (ResetProgress e yes) m = resetProgress e yes m"

fun isReset :: "action \<Rightarrow> bool" where
  "isReset (ResetProgress e yes) = True"
| "isReset _ = False"

text \<open>The step is a tick whose \<open>checkDailyBonus\<close> takes its \<open>if\<close> branch (line 235).\<close>

fun firesDailyBonus :: "action \<Rightarrow> manager \<Rightarrow> bool" where
  "firesDailyBonus (UpdateStats e) m = (now e - lastDailyBonus (dev m) \<ge> oneDay)"
| "firesDailyBonus _ m = False"

text \<open>The template a quest was made from.\<close>

definition templateOf :: "quest \<Rightarrow> template" where
  "templateOf q =
    \<lparr>t_type = qtype q, t_desc = description q, t_target = target q, t_reward = reward q\<rparr>"

text \<open>The clock of a step that reads one is past the epoch.\<close>

fun realClock :: "action \<Rightarrow> bool" where
  "realClock (UpdateStats e) = (0 < now e)"
| "realClock (ResetProgress e yes) = (0 < now e)"
| "realClock _ = True"

text \<open>The lower half of the data model's range for the three stats.\<close>

definition statsNonneg :: "developer \<Rightarrow> bool" where
  "statsNonneg d = (0 \<le> energy d \<and> 0 \<le> motivation d \<and> 0 \<le> focus d)"

subsection \<open>Example states\<close>

definition d50 :: developer where
  "d50 = (defaultDeveloper 0)\<lparr>energy := 50, motivation := 50, focus := 50, health := 50\<rparr>"

text \<open>
  Three records at whole-number stats where the double product of line 488 falls just
  below a whole number that the product over the reals reaches.
\<close>

definition warm :: developer where
  "warm = (defaultDeveloper 0)\<lparr>energy := 50, focus := 20, motivation := 40\<rparr>"

definition keen :: developer where
  "keen = (defaultDeveloper 0)\<lparr>energy := 0, focus := 0, motivation := 82, xp := 9\<rparr>"

definition drowsy :: developer where
  "drowsy = (defaultDeveloper 0)\<lparr>energy := 65, focus := 16, motivation := 15, health := 32\<rparr>"

text \<open>Noon on 14 November 2023 (UTC), in milliseconds, and the days after it.\<close>

definition day0 :: int where
  "day0 = 1699963200000"

definition envAt :: "int \<Rightarrow> env" where
  "envAt t = \<lparr>now = t, hour = 12, shuffled = rev templates\<rparr>"

text \<open>A player on a five-day login streak and a three-day quest streak, last seen on day 0.\<close>

definition veteran :: developer where
  "veteran = (defaultDeveloper day0)\<lparr>coffee := 40, lastDailyBonus := day0, streak := 5,
     questStreak := Some 3, dailyQuestsCompleted := Some True, tutorialCompleted := Some True\<rparr>"

text \<open>A save of the first release: none of the eight later fields.\<close>

definition legacyBlob :: blob where
  "legacyBlob =
    \<lparr>b_energy = 80, b_motivation = 70, b_focus = 60, b_health = 70, b_xp = 40, b_level = 3,
     b_lastUpdated = day0, b_mood = Neutral, b_role = ''U+1F468 U+200D U+1F4BB'',
     b_name = ''Ada'', b_coffee = 12, b_skills = None, b_inventory = None,
     b_lastDailyBonus = None, b_streak = None, b_quests = None, b_questStreak = None,
     b_dailyQuestsCompleted = None, b_tutorialCompleted = None\<rparr>"

text \<open>A save of the current release.\<close>

definition fullBlob :: blob where
  "fullBlob =
    \<lparr>b_energy = 80, b_motivation = 70, b_focus = 60, b_health = 70, b_xp = 40, b_level = 3,
     b_lastUpdated = day0, b_mood = Neutral, b_role = ''U+1F468 U+200D U+1F680'',
     b_name = ''Ada'', b_coffee = 12, b_skills = Some [''iron_focus''],
     b_inventory = Some [''skin_space''], b_lastDailyBonus = Some day0, b_streak = Some 4,
     b_quests = Some [], b_questStreak = Some 2, b_dailyQuestsCompleted = Some True,
     b_tutorialCompleted = Some True\<rparr>"

definition veteranM :: manager where
  "veteranM = \<lparr>dev = veteran, lastErrorCount = 0\<rparr>"

text \<open>A fresh record with no linter error reported, and one with a single error.\<close>

definition calm :: manager where
  "calm = \<lparr>dev = defaultDeveloper day0, lastErrorCount = 0\<rparr>"

definition withOneError :: manager where
  "withOneError = \<lparr>dev = defaultDeveloper day0, lastErrorCount = 1\<rparr>"

section \<open>Properties\<close>

subsection \<open>Double arithmetic\<close>

text \<open>
  \<open>exponent\<close> is the binary exponent, so \<open>binary64\<close> is within half a unit in the last
  place of its argument; it keeps the sign, loses at most half the value, and leaves
  powers of two alone.
\<close>

lemmas fl_eval = binary64_def exponent_def roundEven_def pow2_def jsAdd_def jsMul_def jsDiv_def
  Let_def compute_bitlen


lemma pow2_powi: "pow2 k = 2 powi k"
  by (simp add: pow2_def power_int_def inverse_eq_divide power_one_over)

lemma pow2_pos: "0 < pow2 k"
  by (simp add: pow2_def)

lemma pow2_add: "pow2 (a + b) = pow2 a * pow2 b"
  by (simp add: pow2_powi power_int_add)

lemma pow2_nat: "pow2 (int n) = 2 ^ n"
  by (simp add: pow2_def)

lemma exponent_le:
  assumes "x \<noteq> 0"
  shows "pow2 (exponent x) \<le> \<bar>x\<bar>"
proof (cases "1 \<le> \<bar>x\<bar>")
  case True
  then have pos: "0 < \<lfloor>\<bar>x\<bar>\<rfloor>" by linarith
  from bitlen_bounds[OF pos] have "(2::int) ^ nat (bitlen \<lfloor>\<bar>x\<bar>\<rfloor> - 1) \<le> \<lfloor>\<bar>x\<bar>\<rfloor>" by simp
  then have "real_of_int (2 ^ nat (bitlen \<lfloor>\<bar>x\<bar>\<rfloor> - 1)) \<le> real_of_int \<lfloor>\<bar>x\<bar>\<rfloor>"
    by (rule of_int_le_iff[THEN iffD2])
  also have "\<dots> \<le> \<bar>x\<bar>" by simp
  finally have "2 ^ nat (bitlen \<lfloor>\<bar>x\<bar>\<rfloor> - 1) \<le> \<bar>x\<bar>" by simp
  moreover have "1 \<le> bitlen \<lfloor>\<bar>x\<bar>\<rfloor>" using pos by (simp add: bitlen_alt_def)
  ultimately show ?thesis using True by (simp add: exponent_def pow2_def)
next
  case False
  with assms have lt: "0 < \<bar>x\<bar>" "\<bar>x\<bar> < 1" by simp_all
  then have inv: "1 < 1 / \<bar>x\<bar>" by simp
  define n where "n = \<lceil>1 / \<bar>x\<bar>\<rceil>"
  have n2: "2 \<le> n" using inv unfolding n_def by linarith
  then have pos: "0 < n - 1" by simp
  define b where "b = bitlen (n - 1)"
  have b1: "1 \<le> b" using pos by (simp add: b_def bitlen_alt_def)
  from bitlen_bounds[OF pos] have "n - 1 < 2 ^ nat b" by (simp add: b_def)
  then have "n \<le> 2 ^ nat b" by simp
  then have "real_of_int n \<le> real_of_int (2 ^ nat b)" by (rule of_int_le_iff[THEN iffD2])
  then have "real_of_int n \<le> 2 ^ nat b" by simp
  moreover have "1 / \<bar>x\<bar> \<le> real_of_int n" by (simp add: n_def)
  ultimately have "1 / \<bar>x\<bar> \<le> 2 ^ nat b" by linarith
  then have "1 \<le> 2 ^ nat b * \<bar>x\<bar>" using lt(1) by (simp add: field_simps)
  then have "1 / 2 ^ nat b \<le> \<bar>x\<bar>" by (simp add: field_simps)
  moreover have "exponent x = - b" using False by (simp add: exponent_def b_def n_def)
  ultimately show ?thesis using b1 by (simp add: pow2_def)
qed

lemma exponent_gt:
  assumes "x \<noteq> 0"
  shows "\<bar>x\<bar> < pow2 (exponent x + 1)"
proof (cases "1 \<le> \<bar>x\<bar>")
  case True
  then have pos: "0 < \<lfloor>\<bar>x\<bar>\<rfloor>" by linarith
  define b where "b = bitlen \<lfloor>\<bar>x\<bar>\<rfloor>"
  have b1: "1 \<le> b" using pos by (simp add: b_def bitlen_alt_def)
  from bitlen_bounds[OF pos] have "\<lfloor>\<bar>x\<bar>\<rfloor> + 1 \<le> 2 ^ nat b" by (simp add: b_def)
  then have "real_of_int (\<lfloor>\<bar>x\<bar>\<rfloor> + 1) \<le> real_of_int (2 ^ nat b)"
    by (rule of_int_le_iff[THEN iffD2])
  then have "real_of_int \<lfloor>\<bar>x\<bar>\<rfloor> + 1 \<le> 2 ^ nat b" by simp
  moreover have "\<bar>x\<bar> < real_of_int \<lfloor>\<bar>x\<bar>\<rfloor> + 1" by linarith
  ultimately have "\<bar>x\<bar> < 2 ^ nat b" by linarith
  moreover have "exponent x + 1 = b" using True by (simp add: exponent_def b_def)
  ultimately show ?thesis using b1 by (simp add: pow2_def)
next
  case False
  with assms have lt: "0 < \<bar>x\<bar>" "\<bar>x\<bar> < 1" by simp_all
  then have inv: "1 < 1 / \<bar>x\<bar>" by simp
  define n where "n = \<lceil>1 / \<bar>x\<bar>\<rceil>"
  have n2: "2 \<le> n" using inv unfolding n_def by linarith
  then have pos: "0 < n - 1" by simp
  define b where "b = bitlen (n - 1)"
  have b1: "1 \<le> b" using pos by (simp add: b_def bitlen_alt_def)
  have e: "exponent x + 1 = - (b - 1)" using False by (simp add: exponent_def b_def n_def)
  from bitlen_bounds[OF pos] have "(2::int) ^ nat (b - 1) \<le> n - 1" by (simp add: b_def)
  then have "real_of_int (2 ^ nat (b - 1)) \<le> real_of_int (n - 1)"
    by (rule of_int_le_iff[THEN iffD2])
  moreover have "real_of_int (n - 1) < 1 / \<bar>x\<bar>" unfolding n_def by linarith
  ultimately have "2 ^ nat (b - 1) < 1 / \<bar>x\<bar>" by simp
  then have "2 ^ nat (b - 1) * \<bar>x\<bar> < 1" using lt(1) by (simp add: field_simps)
  then have "\<bar>x\<bar> < 1 / 2 ^ nat (b - 1)" by (simp add: field_simps)
  then show ?thesis unfolding e using b1 by (cases "b = 1") (simp_all add: pow2_def)
qed

lemma roundEven_near: "\<bar>real_of_int (roundEven y) - y\<bar> \<le> 1 / 2"
  unfolding roundEven_def Let_def by (auto simp: abs_le_iff)

lemma roundEven_nonneg: "0 \<le> y \<Longrightarrow> 0 \<le> roundEven y"
  unfolding roundEven_def Let_def by auto

lemma roundEven_of_int: "roundEven (real_of_int k) = k"
  by (simp add: roundEven_def)

lemma binary64_nonneg: "0 \<le> x \<Longrightarrow> 0 \<le> binary64 x"
  using pow2_pos[of "exponent x - 52"]
  by (simp add: binary64_def Let_def roundEven_nonneg)

lemma jsAdd_nonneg: "0 \<le> a \<Longrightarrow> 0 \<le> b \<Longrightarrow> 0 \<le> jsAdd a b"
  by (simp add: jsAdd_def binary64_nonneg)

lemma binary64_error:
  "\<bar>binary64 x - x\<bar> \<le> pow2 (exponent x - 53)"
proof (cases "x = 0")
  case True
  then show ?thesis using pow2_pos[of "exponent x - 53"] by (simp add: binary64_def)
next
  case False
  define u where "u = pow2 (exponent x - 52)"
  have u0: "0 < u" by (simp add: u_def pow2_pos)
  have "binary64 x - x = (real_of_int (roundEven (x / u)) - x / u) * u"
    using False u0 by (simp add: binary64_def Let_def u_def[symmetric] field_simps)
  then have "\<bar>binary64 x - x\<bar> = \<bar>real_of_int (roundEven (x / u)) - x / u\<bar> * u"
    using u0 by (simp add: abs_mult)
  also have "\<dots> \<le> (1 / 2) * u"
    using roundEven_near[of "x / u"] u0 by (intro mult_right_mono) auto
  also have "\<dots> = pow2 (exponent x - 53)"
    using pow2_add[of "exponent x - 53" 1] by (simp add: u_def pow2_def[of 1])
  finally show ?thesis .
qed

lemma binary64_half:
  assumes "0 \<le> x"
  shows "x / 2 \<le> binary64 x"
proof (cases "x = 0")
  case True
  then show ?thesis by (simp add: binary64_def)
next
  case False
  with assms have x: "0 < x" by simp
  have "pow2 (exponent x - 53) * pow2 53 = pow2 (exponent x)"
    using pow2_add[of "exponent x - 53" 53] by simp
  moreover have "pow2 (exponent x) \<le> x" using exponent_le[OF False] x by simp
  moreover have "pow2 (exponent x - 53) * 2 \<le> pow2 (exponent x - 53) * pow2 53"
    using pow2_pos[of "exponent x - 53"] by (intro mult_left_mono) (simp_all add: pow2_def[of 53])
  ultimately have "pow2 (exponent x - 53) * 2 \<le> x" by linarith
  then have "pow2 (exponent x - 53) \<le> x / 2" by simp
  with binary64_error[of x] show ?thesis by (simp add: abs_le_iff)
qed

lemma binary64_pow2: "binary64 (2 ^ n) = 2 ^ n"
proof -
  have "\<bar>(2::real) ^ n\<bar> = real_of_int (2 ^ n)" by simp
  then have f: "\<lfloor>\<bar>(2::real) ^ n\<bar>\<rfloor> = 2 ^ n" by (simp only: floor_of_int)
  have ge: "1 \<le> \<bar>(2::real) ^ n\<bar>" by simp
  have "bitlen (1 * 2 ^ n) = bitlen 1 + int n" by (rule bitlen_pow2) simp
  moreover have "bitlen 1 = 1" by (simp add: compute_bitlen)
  ultimately have e: "exponent (2 ^ n) = int n" using ge by (simp only: exponent_def f if_True) simp
  have "(2::real) ^ n = pow2 (int n - 52) * pow2 52"
    using pow2_add[of "int n - 52" 52] by (simp add: pow2_nat)
  then have q: "(2::real) ^ n / pow2 (int n - 52) = real_of_int (2 ^ 52)"
    using pow2_pos[of "int n - 52"] by (simp add: pow2_def[of 52] field_simps)
  show ?thesis
    unfolding binary64_def Let_def e q roundEven_of_int
    using \<open>(2::real) ^ n = pow2 (int n - 52) * pow2 52\<close> by (simp add: pow2_def[of 52])
qed

subsection \<open>The level loop\<close>

lemma levelLoop_level_mono: "l \<le> snd (levelLoop x l)"
proof (induction x l rule: levelLoop.induct)
  case (1 x l)
  show ?case
  proof (cases "x \<ge> l * 100")
    case True
    with "1.IH" have "l + 1 \<le> snd (levelLoop (x - l * 100) (l + 1))" by simp
    with True show ?thesis by (subst levelLoop.simps) simp
  next
    case False
    then show ?thesis by (subst levelLoop.simps) simp
  qed
qed

lemma levelLoop_upper: "fst (levelLoop x l) < snd (levelLoop x l) * 100"
proof (induction x l rule: levelLoop.induct)
  case (1 x l)
  show ?case
  proof (cases "x \<ge> l * 100")
    case True
    with "1.IH" show ?thesis by (subst (1 2) levelLoop.simps) simp
  next
    case False
    then show ?thesis by (subst (1 2) levelLoop.simps) simp
  qed
qed

lemma levelLoop_lower: "0 \<le> x \<Longrightarrow> 0 \<le> fst (levelLoop x l)"
proof (induction x l rule: levelLoop.induct)
  case (1 x l)
  show ?case
  proof (cases "x \<ge> l * 100")
    case True
    with "1.prems" have "0 \<le> x - l * 100" by (cases "0 \<le> l") auto
    with "1.IH" True have "0 \<le> fst (levelLoop (x - l * 100) (l + 1))" by simp
    with True show ?thesis by (subst levelLoop.simps) simp
  next
    case False
    with "1.prems" show ?thesis by (subst levelLoop.simps) simp
  qed
qed

lemma levelLoop_total:
  "fst (levelLoop x l) + 50 * snd (levelLoop x l) * (snd (levelLoop x l) - 1)
     = x + 50 * l * (l - 1)"
proof (induction x l rule: levelLoop.induct)
  case (1 x l)
  show ?case
  proof (cases "x \<ge> l * 100")
    case True
    with "1.IH" have "fst (levelLoop (x - l * 100) (l + 1))
        + 50 * snd (levelLoop (x - l * 100) (l + 1)) * (snd (levelLoop (x - l * 100) (l + 1)) - 1)
        = (x - l * 100) + 50 * (l + 1) * (l + 1 - 1)" by simp
    also have "\<dots> = x + 50 * l * (l - 1)" by (simp add: algebra_simps)
    finally show ?thesis using True by (subst (1 2 3) levelLoop.simps) simp
  next
    case False
    then show ?thesis by (subst (1 2 3) levelLoop.simps) simp
  qed
qed

lemma levelLoop_stay: "x < l * 100 \<Longrightarrow> levelLoop x l = (x, l)"
  by (subst levelLoop.simps) simp

lemma addXP_eq:
  "addXP amount d =
     d\<lparr>xp := fst (levelLoop (xp d + momentum amount d) (level d)),
       level := snd (levelLoop (xp d + momentum amount d) (level d))\<rparr>"
  by (simp add: addXP_def Let_def split: prod.splits)

lemma factor_ge_half:
  assumes "0 \<le> t"
  shows "1 / 2 \<le> jsAdd 1 (jsDiv t 100)"
proof -
  have "0 \<le> jsDiv t 100" using assms by (simp add: jsDiv_def binary64_nonneg)
  then have "(1 + jsDiv t 100) / 2 \<le> jsAdd 1 (jsDiv t 100)"
    unfolding jsAdd_def by (intro binary64_half) simp
  with \<open>0 \<le> jsDiv t 100\<close> show ?thesis by simp
qed

lemma jsMul_quarter:
  assumes "0 \<le> p" and "1 / 2 \<le> u"
  shows "p / 4 \<le> jsMul p u"
proof -
  have "p * (1 / 2) \<le> p * u" using assms by (intro mult_left_mono) simp_all
  moreover have "0 \<le> p * u" using assms by simp
  then have "p * u / 2 \<le> jsMul p u" unfolding jsMul_def by (rule binary64_half)
  ultimately show ?thesis by simp
qed

lemma momentum_nonneg:
  assumes "0 \<le> amount" "0 \<le> energy d" "0 \<le> focus d" "0 \<le> motivation d"
  shows "0 \<le> momentum amount d"
proof -
  have u: "0 \<le> jsAdd 1 (jsDiv (energy d) 100)" "0 \<le> jsAdd 1 (jsDiv (focus d) 100)"
    "0 \<le> jsAdd 1 (jsDiv (motivation d) 100)"
    using assms factor_ge_half[of "energy d"] factor_ge_half[of "focus d"]
      factor_ge_half[of "motivation d"] by simp_all
  have "0 \<le> jsMul amount (jsAdd 1 (jsDiv (energy d) 100))"
    using assms(1) u(1) by (simp add: jsMul_def binary64_nonneg)
  then have "0 \<le> jsMul (jsMul amount (jsAdd 1 (jsDiv (energy d) 100)))
      (jsAdd 1 (jsDiv (focus d) 100))"
    using u(2) by (simp add: jsMul_def binary64_nonneg)
  then have "0 \<le> jsMul (jsMul (jsMul amount (jsAdd 1 (jsDiv (energy d) 100)))
      (jsAdd 1 (jsDiv (focus d) 100))) (jsAdd 1 (jsDiv (motivation d) 100))"
    using u(3) by (simp add: jsMul_def binary64_nonneg)
  then show ?thesis by (simp add: momentum_def)
qed

lemma momentum_ge:
  assumes "0 \<le> amount" "0 \<le> energy d" "0 \<le> focus d" "0 \<le> motivation d"
  shows "\<lfloor>amount / 64\<rfloor> \<le> momentum amount d"
proof -
  let ?u1 = "jsAdd 1 (jsDiv (energy d) 100)"
  let ?u2 = "jsAdd 1 (jsDiv (focus d) 100)"
  let ?u3 = "jsAdd 1 (jsDiv (motivation d) 100)"
  have p1: "amount / 4 \<le> jsMul amount ?u1"
    using assms(1) factor_ge_half[OF assms(2)] by (rule jsMul_quarter)
  then have p1': "0 \<le> jsMul amount ?u1" using assms(1) by simp
  have p2: "jsMul amount ?u1 / 4 \<le> jsMul (jsMul amount ?u1) ?u2"
    using p1' factor_ge_half[OF assms(3)] by (rule jsMul_quarter)
  then have p2': "0 \<le> jsMul (jsMul amount ?u1) ?u2" using p1' by simp
  have p3: "jsMul (jsMul amount ?u1) ?u2 / 4 \<le> jsMul (jsMul (jsMul amount ?u1) ?u2) ?u3"
    using p2' factor_ge_half[OF assms(4)] by (rule jsMul_quarter)
  from p1 p2 p3 have "amount / 64 \<le> jsMul (jsMul (jsMul amount ?u1) ?u2) ?u3" by simp
  then show ?thesis unfolding momentum_def by (rule floor_mono)
qed

lemma level_unbounded_aux:
  assumes "1 \<le> L'" "x' < L' * 100" "x' + 50 * L' * (L' - 1) \<ge> 50 * N * N" "0 \<le> (N::int)"
  shows "N \<le> (L'::int)"
proof (rule ccontr)
  assume "\<not> N \<le> L'"
  then have lt: "L' + 1 \<le> N" by simp
  have "L' * (L' + 1) \<le> N * N"
    using lt assms(1) by (intro mult_mono) auto
  then have "50 * L' * (L' + 1) \<le> 50 * N * N" by simp
  moreover have "x' + 50 * L' * (L' - 1) < 50 * L' * (L' + 1)"
    using assms(2) by (simp add: algebra_simps)
  ultimately show False using assms(3) by linarith
qed

subsection \<open>What each step leaves alone\<close>

lemma addXP_frame:
  "energy (addXP a d) = energy d" "motivation (addXP a d) = motivation d"
  "focus (addXP a d) = focus d" "health (addXP a d) = health d"
  "coffee (addXP a d) = coffee d" "skills (addXP a d) = skills d"
  "inventory (addXP a d) = inventory d" "streak (addXP a d) = streak d"
  "questStreak (addXP a d) = questStreak d" "quests (addXP a d) = quests d"
  "lastDailyBonus (addXP a d) = lastDailyBonus d"
  "dailyQuestsCompleted (addXP a d) = dailyQuestsCompleted d"
  "tutorialCompleted (addXP a d) = tutorialCompleted d"
  "lastUpdated (addXP a d) = lastUpdated d"
  by (simp_all add: addXP_eq)

lemma addXP_level: "level d \<le> level (addXP a d)"
  by (simp add: addXP_eq levelLoop_level_mono)

lemma updateQuestProgress_frame:
  "energy (updateQuestProgress ty a d) = energy d"
  "motivation (updateQuestProgress ty a d) = motivation d"
  "focus (updateQuestProgress ty a d) = focus d"
  "health (updateQuestProgress ty a d) = health d"
  "xp (updateQuestProgress ty a d) = xp d"
  "level (updateQuestProgress ty a d) = level d"
  "skills (updateQuestProgress ty a d) = skills d"
  "inventory (updateQuestProgress ty a d) = inventory d"
  "streak (updateQuestProgress ty a d) = streak d"
  "lastDailyBonus (updateQuestProgress ty a d) = lastDailyBonus d"
  "tutorialCompleted (updateQuestProgress ty a d) = tutorialCompleted d"
  "lastUpdated (updateQuestProgress ty a d) = lastUpdated d"
  by (simp_all add: updateQuestProgress_def Let_def)

lemma updateQuestProgress_questStreak:
  "orZero (questStreak d) \<le> orZero (questStreak (updateQuestProgress ty a d))"
  by (simp add: updateQuestProgress_def Let_def orZero_def)

lemma updateQuestProgress_empty: "quests d = [] \<Longrightarrow> updateQuestProgress ty a d = d"
  by (simp add: updateQuestProgress_def Let_def)

lemma checkDailyBonus_frame:
  "energy (checkDailyBonus e d) = energy d"
  "motivation (checkDailyBonus e d) = motivation d"
  "focus (checkDailyBonus e d) = focus d"
  "health (checkDailyBonus e d) = health d"
  "xp (checkDailyBonus e d) = xp d"
  "level (checkDailyBonus e d) = level d"
  "skills (checkDailyBonus e d) = skills d"
  "inventory (checkDailyBonus e d) = inventory d"
  "tutorialCompleted (checkDailyBonus e d) = tutorialCompleted d"
  "lastUpdated (checkDailyBonus e d) = lastUpdated d"
  by (simp_all add: checkDailyBonus_def generateDailyQuests_def Let_def)

lemma checkDailyBonus_idle:
  "now e - lastDailyBonus d < oneDay \<Longrightarrow> checkDailyBonus e d = d"
  by (simp add: checkDailyBonus_def Let_def)

lemma applyDecay_frame:
  "health (applyDecay e m) = health (dev m)"
  "xp (applyDecay e m) = xp (dev m)"
  "level (applyDecay e m) = level (dev m)"
  "coffee (applyDecay e m) = coffee (dev m)"
  "skills (applyDecay e m) = skills (dev m)"
  "inventory (applyDecay e m) = inventory (dev m)"
  "streak (applyDecay e m) = streak (dev m)"
  "questStreak (applyDecay e m) = questStreak (dev m)"
  "quests (applyDecay e m) = quests (dev m)"
  "lastDailyBonus (applyDecay e m) = lastDailyBonus (dev m)"
  "dailyQuestsCompleted (applyDecay e m) = dailyQuestsCompleted (dev m)"
  "tutorialCompleted (applyDecay e m) = tutorialCompleted (dev m)"
  "lastUpdated (applyDecay e m) = lastUpdated (dev m)"
  by (simp_all add: applyDecay_def Let_def)

lemma applyDecay_nonneg:
  "0 \<le> energy (applyDecay e m)" "0 \<le> motivation (applyDecay e m)" "0 \<le> focus (applyDecay e m)"
  by (simp_all add: applyDecay_def Let_def)

lemma beforeBonus_frame:
  "energy (beforeBonus e m) = energy (applyDecay e m)"
  "motivation (beforeBonus e m) = motivation (applyDecay e m)"
  "focus (beforeBonus e m) = focus (applyDecay e m)"
  "health (beforeBonus e m) = health (dev m)"
  "xp (beforeBonus e m) = xp (dev m)"
  "level (beforeBonus e m) = level (dev m)"
  "skills (beforeBonus e m) = skills (dev m)"
  "inventory (beforeBonus e m) = inventory (dev m)"
  "streak (beforeBonus e m) = streak (dev m)"
  "lastDailyBonus (beforeBonus e m) = lastDailyBonus (dev m)"
  "tutorialCompleted (beforeBonus e m) = tutorialCompleted (dev m)"
  by (simp_all add: beforeBonus_def Let_def updateQuestProgress_frame applyDecay_frame)

lemma beforeBonus_questStreak:
  "orZero (questStreak (dev m)) \<le> orZero (questStreak (beforeBonus e m))"
  using updateQuestProgress_questStreak[of "applyDecay e m" Time]
  by (simp add: beforeBonus_def Let_def applyDecay_frame)

lemma beforeBonus_empty:
  "quests (dev m) = [] \<Longrightarrow> coffee (beforeBonus e m) = coffee (dev m)"
  by (simp add: beforeBonus_def Let_def updateQuestProgress_empty applyDecay_frame)

lemma updateStats_fields:
  "energy (dev (updateStats e m)) = energy (applyDecay e m)"
  "motivation (dev (updateStats e m)) = motivation (applyDecay e m)"
  "focus (dev (updateStats e m)) = focus (applyDecay e m)"
  "health (dev (updateStats e m))
     = (energy (applyDecay e m) + motivation (applyDecay e m) + focus (applyDecay e m)) / 3"
  "lastUpdated (dev (updateStats e m)) = now e"
  "lastErrorCount (updateStats e m) = lastErrorCount m"
  "xp (dev (updateStats e m)) = xp (dev m)"
  "level (dev (updateStats e m)) = level (dev m)"
  "skills (dev (updateStats e m)) = skills (dev m)"
  "inventory (dev (updateStats e m)) = inventory (dev m)"
  "tutorialCompleted (dev (updateStats e m)) = tutorialCompleted (dev m)"
  "streak (dev (updateStats e m)) = streak (checkDailyBonus e (beforeBonus e m))"
  "coffee (dev (updateStats e m)) = coffee (checkDailyBonus e (beforeBonus e m))"
  "quests (dev (updateStats e m)) = quests (checkDailyBonus e (beforeBonus e m))"
  "questStreak (dev (updateStats e m)) = questStreak (checkDailyBonus e (beforeBonus e m))"
  "lastDailyBonus (dev (updateStats e m)) = lastDailyBonus (checkDailyBonus e (beforeBonus e m))"
  "dailyQuestsCompleted (dev (updateStats e m))
     = dailyQuestsCompleted (checkDailyBonus e (beforeBonus e m))"
  by (simp_all add: updateStats_def Let_def checkDailyBonus_frame beforeBonus_frame)

subsection \<open>Skills, inventory, level and streaks, handler by handler\<close>

lemma addXP_level_le: "l \<le> level d \<Longrightarrow> l \<le> level (addXP a d)"
  using addXP_level[of d a] by simp

lemma updateQuestProgress_questStreak_le:
  "q \<le> orZero (questStreak d) \<Longrightarrow> q \<le> orZero (questStreak (updateQuestProgress ty a d))"
  using updateQuestProgress_questStreak[of d ty a] by simp

lemma unlockSkill_keeps:
  "set (skills d) \<subseteq> set (skills (snd (unlockSkill i d)))"
  "inventory (snd (unlockSkill i d)) = inventory d"
  "level (snd (unlockSkill i d)) = level d"
  "streak (snd (unlockSkill i d)) = streak d"
  "questStreak (snd (unlockSkill i d)) = questStreak d"
  by (auto simp: unlockSkill_def split: option.splits)

lemma buyItem_keeps:
  "skills (snd (buyItem i d)) = skills d"
  "set (inventory d) \<subseteq> set (inventory (snd (buyItem i d)))"
  "level (snd (buyItem i d)) = level d"
  "streak (snd (buyItem i d)) = streak d"
  "questStreak (snd (buyItem i d)) = questStreak d"
  by (auto simp: buyItem_def Let_def split: option.splits)

lemma equipItem_keeps:
  "skills (snd (equipItem i d)) = skills d"
  "inventory (snd (equipItem i d)) = inventory d"
  "level (snd (equipItem i d)) = level d"
  "streak (snd (equipItem i d)) = streak d"
  "questStreak (snd (equipItem i d)) = questStreak d"
  by (auto simp: equipItem_def split: option.splits)

lemma giveCoffee_keeps:
  "skills (snd (giveCoffee d)) = skills d"
  "inventory (snd (giveCoffee d)) = inventory d"
  "level d \<le> level (snd (giveCoffee d))"
  "streak (snd (giveCoffee d)) = streak d"
  "questStreak (snd (giveCoffee d)) = questStreak d"
  by (simp_all add: giveCoffee_def Let_def addXP_frame addXP_level_le)

lemma takeBreak_keeps:
  "skills (snd (takeBreak d)) = skills d"
  "inventory (snd (takeBreak d)) = inventory d"
  "level d \<le> level (snd (takeBreak d))"
  "streak (snd (takeBreak d)) = streak d"
  "questStreak (snd (takeBreak d)) = questStreak d"
  by (simp_all add: takeBreak_def Let_def addXP_frame addXP_level_le)

lemma onCodeSaved_keeps:
  "skills (onCodeSaved d) = skills d"
  "inventory (onCodeSaved d) = inventory d"
  "level d \<le> level (onCodeSaved d)"
  "streak (onCodeSaved d) = streak d"
  "orZero (questStreak d) \<le> orZero (questStreak (onCodeSaved d))"
proof -
  let ?d1 = "d\<lparr>motivation := min 100 (motivation d + 3), coffee := coffee d + 1\<rparr>"
  have eq: "onCodeSaved d = updateQuestProgress Save 1 (addXP 3 ?d1)"
    by (simp add: onCodeSaved_def Let_def)
  show "skills (onCodeSaved d) = skills d" "inventory (onCodeSaved d) = inventory d"
    "streak (onCodeSaved d) = streak d"
    by (simp_all add: eq updateQuestProgress_frame addXP_frame)
  show "level d \<le> level (onCodeSaved d)"
    by (simp add: eq updateQuestProgress_frame addXP_level_le)
  show "orZero (questStreak d) \<le> orZero (questStreak (onCodeSaved d))"
    by (simp add: eq addXP_frame updateQuestProgress_questStreak_le)
qed

lemma onGitCommit_keeps:
  "skills (onGitCommit d) = skills d"
  "inventory (onGitCommit d) = inventory d"
  "level d \<le> level (onGitCommit d)"
  "streak (onGitCommit d) = streak d"
  "orZero (questStreak d) \<le> orZero (questStreak (onGitCommit d))"
proof -
  let ?d1 = "d\<lparr>motivation := min 100 (motivation d + 20), coffee := coffee d + 5\<rparr>"
  have eq: "onGitCommit d = updateQuestProgress Commit 1 (addXP 50 ?d1)"
    by (simp add: onGitCommit_def Let_def)
  show "skills (onGitCommit d) = skills d" "inventory (onGitCommit d) = inventory d"
    "streak (onGitCommit d) = streak d"
    by (simp_all add: eq updateQuestProgress_frame addXP_frame)
  show "level d \<le> level (onGitCommit d)"
    by (simp add: eq updateQuestProgress_frame addXP_level_le)
  show "orZero (questStreak d) \<le> orZero (questStreak (onGitCommit d))"
    by (simp add: eq addXP_frame updateQuestProgress_questStreak_le)
qed

lemma challengeCompleted_keeps:
  "skills (snd (challengeCompleted s d)) = skills d"
  "inventory (snd (challengeCompleted s d)) = inventory d"
  "level d \<le> level (snd (challengeCompleted s d))"
  "streak (snd (challengeCompleted s d)) = streak d"
  "questStreak (snd (challengeCompleted s d)) = questStreak d"
  by (simp_all add: challengeCompleted_def Let_def addXP_frame addXP_level_le)

lemma updateErrorCount_keeps:
  "skills (dev (updateErrorCount c m)) = skills (dev m)"
  "inventory (dev (updateErrorCount c m)) = inventory (dev m)"
  "level (dev m) \<le> level (dev (updateErrorCount c m))"
  "streak (dev (updateErrorCount c m)) = streak (dev m)"
  "orZero (questStreak (dev m)) \<le> orZero (questStreak (dev (updateErrorCount c m)))"
proof -
  let ?diff = "c - lastErrorCount m"
  let ?a = "real_of_int (\<bar>?diff\<bar> * 5 * (if ''bug_slayer'' \<in> set (skills (dev m)) then 2 else 1))"
  let ?d1 = "(addXP ?a (dev m))\<lparr>motivation := min 100 (motivation (addXP ?a (dev m)) + real_of_int \<bar>?diff\<bar>)\<rparr>"
  have eq: "dev (updateErrorCount c m) =
      (if ?diff < 0 then updateQuestProgress Fix (real_of_int \<bar>?diff\<bar>) ?d1
       else if ?diff > 0 then (dev m)\<lparr>focus := max 0 (focus (dev m) - real_of_int ?diff * 0.5)\<rparr>
       else dev m)"
    by (simp add: updateErrorCount_def Let_def)
  show "skills (dev (updateErrorCount c m)) = skills (dev m)"
    "inventory (dev (updateErrorCount c m)) = inventory (dev m)"
    "streak (dev (updateErrorCount c m)) = streak (dev m)"
    by (simp_all add: eq updateQuestProgress_frame addXP_frame)
  show "level (dev m) \<le> level (dev (updateErrorCount c m))"
    by (simp add: eq updateQuestProgress_frame addXP_level_le)
  show "orZero (questStreak (dev m)) \<le> orZero (questStreak (dev (updateErrorCount c m)))"
    by (simp add: eq addXP_frame updateQuestProgress_questStreak_le)
qed

lemma updateStats_keeps:
  "skills (dev (updateStats e m)) = skills (dev m)"
  "inventory (dev (updateStats e m)) = inventory (dev m)"
  "level (dev (updateStats e m)) = level (dev m)"
  by (simp_all add: updateStats_fields)

lemma updateStats_idle:
  assumes "now e - lastDailyBonus (dev m) < oneDay"
  shows "streak (dev (updateStats e m)) = streak (dev m)"
    and "orZero (questStreak (dev m)) \<le> orZero (questStreak (dev (updateStats e m)))"
proof -
  have "checkDailyBonus e (beforeBonus e m) = beforeBonus e m"
    using assms by (simp add: checkDailyBonus_idle beforeBonus_frame)
  then show "streak (dev (updateStats e m)) = streak (dev m)"
    and "orZero (questStreak (dev m)) \<le> orZero (questStreak (dev (updateStats e m)))"
    by (simp_all add: updateStats_fields beforeBonus_frame beforeBonus_questStreak)
qed

subsection \<open>The daily bonus and the quests it generates\<close>

lemma templates_distinct: "distinct templates" "length templates = 8"
  by (simp_all add: templates_def)

lemma validShuffle_props:
  assumes "validShuffle e"
  shows "length (shuffled e) = 8" "distinct (shuffled e)" "set (shuffled e) = set templates"
proof -
  from assms have eq: "mset (shuffled e) = mset templates" by (simp add: validShuffle_def)
  from mset_eq_length[OF eq] show "length (shuffled e) = 8" by (simp add: templates_distinct)
  from mset_eq_imp_distinct_iff[OF eq] show "distinct (shuffled e)" by (simp add: templates_distinct)
  from mset_eq_setD[OF eq] show "set (shuffled e) = set templates" .
qed

lemma templateOf_newQuest: "templateOf (newQuest t p) = fst p"
  by (simp add: templateOf_def newQuest_def)

lemma generateDailyQuests_quests:
  "quests (generateDailyQuests e d)
     = map (newQuest (now e)) (zip (take 3 (shuffled e)) [0..<length (take 3 (shuffled e))])"
  by (simp add: generateDailyQuests_def Let_def)

lemma generated_fresh:
  "\<forall>q \<in> set (quests (generateDailyQuests e d)). progress q = 0 \<and> \<not> completed q"
  by (auto simp: generateDailyQuests_quests newQuest_def)

lemma generated_templates:
  "map templateOf (quests (generateDailyQuests e d)) = take 3 (shuffled e)"
proof -
  have "map templateOf (quests (generateDailyQuests e d))
      = map fst (zip (take 3 (shuffled e)) [0..<length (take 3 (shuffled e))])"
    by (simp add: generateDailyQuests_quests templateOf_newQuest comp_def)
  also have "\<dots> = take 3 (shuffled e)" by (rule map_fst_zip) simp
  finally show ?thesis .
qed

lemma generated_three:
  assumes "validShuffle e"
  shows "length (quests (generateDailyQuests e d)) = 3"
    and "distinct (map templateOf (quests (generateDailyQuests e d)))"
    and "set (map templateOf (quests (generateDailyQuests e d))) \<subseteq> set templates"
proof -
  show "length (quests (generateDailyQuests e d)) = 3"
    using validShuffle_props(1)[OF assms] by (simp add: generateDailyQuests_quests)
  show "distinct (map templateOf (quests (generateDailyQuests e d)))"
    unfolding generated_templates using validShuffle_props(2)[OF assms] by (rule distinct_take)
  show "set (map templateOf (quests (generateDailyQuests e d))) \<subseteq> set templates"
    unfolding generated_templates using validShuffle_props(3)[OF assms] set_take_subset[of 3 "shuffled e"]
    by simp
qed

lemma checkDailyBonus_fires:
  assumes "now e - lastDailyBonus d \<ge> oneDay"
  shows "streak (checkDailyBonus e d)
           = (if 0 < lastDailyBonus d \<and> now e - lastDailyBonus d < twoDays then streak d + 1 else 1)"
    and "coffee (checkDailyBonus e d) = coffee d + (20 + streak (checkDailyBonus e d) * 5)"
    and "lastDailyBonus (checkDailyBonus e d) = now e"
    and "dailyQuestsCompleted (checkDailyBonus e d) = Some False"
    and "quests (checkDailyBonus e d) = quests (generateDailyQuests e d)"
proof -
  let ?d1 = "if 0 < lastDailyBonus d \<and> now e - lastDailyBonus d < twoDays
             then d\<lparr>streak := streak d + 1\<rparr> else d\<lparr>streak := 1\<rparr>"
  let ?d2 = "?d1\<lparr>coffee := coffee ?d1 + (20 + streak ?d1 * 5), lastDailyBonus := now e\<rparr>"
  have eq: "checkDailyBonus e d = generateDailyQuests e ?d2"
    using assms by (simp add: checkDailyBonus_def Let_def)
  have keep: "streak (generateDailyQuests e x) = streak x"
    "coffee (generateDailyQuests e x) = coffee x"
    "lastDailyBonus (generateDailyQuests e x) = lastDailyBonus x"
    "dailyQuestsCompleted (generateDailyQuests e x) = Some False" for x
    by (simp_all add: generateDailyQuests_def Let_def)
  show a: "streak (checkDailyBonus e d)
           = (if 0 < lastDailyBonus d \<and> now e - lastDailyBonus d < twoDays then streak d + 1 else 1)"
    by (simp add: eq keep)
  show "coffee (checkDailyBonus e d) = coffee d + (20 + streak (checkDailyBonus e d) * 5)"
    unfolding a by (simp add: eq keep)
  show "lastDailyBonus (checkDailyBonus e d) = now e" by (simp add: eq keep)
  show "dailyQuestsCompleted (checkDailyBonus e d) = Some False" by (simp add: eq keep)
  show "quests (checkDailyBonus e d) = quests (generateDailyQuests e d)"
    by (simp add: eq generateDailyQuests_quests)
qed

lemma tick_bonus_quests:
  assumes "now e - lastDailyBonus (dev m) \<ge> oneDay" and "validShuffle e"
  shows "length (quests (dev (updateStats e m))) = 3"
    and "map templateOf (quests (dev (updateStats e m))) = take 3 (shuffled e)"
    and "distinct (map templateOf (quests (dev (updateStats e m))))"
    and "set (map templateOf (quests (dev (updateStats e m)))) \<subseteq> set templates"
    and "\<forall>q \<in> set (quests (dev (updateStats e m))). progress q = 0 \<and> \<not> completed q"
proof -
  have due: "now e - lastDailyBonus (beforeBonus e m) \<ge> oneDay"
    using assms(1) by (simp add: beforeBonus_frame)
  have q: "quests (dev (updateStats e m)) = quests (generateDailyQuests e (beforeBonus e m))"
    by (simp add: updateStats_fields checkDailyBonus_fires(5)[OF due])
  show "length (quests (dev (updateStats e m))) = 3"
    unfolding q by (rule generated_three(1)[OF assms(2)])
  show "map templateOf (quests (dev (updateStats e m))) = take 3 (shuffled e)"
    unfolding q by (rule generated_templates)
  show "distinct (map templateOf (quests (dev (updateStats e m))))"
    unfolding q by (rule generated_three(2)[OF assms(2)])
  show "set (map templateOf (quests (dev (updateStats e m)))) \<subseteq> set templates"
    unfolding q by (rule generated_three(3)[OF assms(2)])
  show "\<forall>q \<in> set (quests (dev (updateStats e m))). progress q = 0 \<and> \<not> completed q"
    unfolding q by (rule generated_fresh)
qed

lemma tick_bonus_fields:
  assumes "now e - lastDailyBonus (dev m) \<ge> oneDay"
  shows "streak (dev (updateStats e m))
           = (if 0 < lastDailyBonus (dev m) \<and> now e - lastDailyBonus (dev m) < twoDays
              then streak (dev m) + 1 else 1)"
    and "coffee (dev (updateStats e m))
           = coffee (beforeBonus e m) + (20 + streak (dev (updateStats e m)) * 5)"
    and "lastDailyBonus (dev (updateStats e m)) = now e"
proof -
  have due: "now e - lastDailyBonus (beforeBonus e m) \<ge> oneDay"
    using assms(1) by (simp add: beforeBonus_frame)
  show "streak (dev (updateStats e m))
           = (if 0 < lastDailyBonus (dev m) \<and> now e - lastDailyBonus (dev m) < twoDays
              then streak (dev m) + 1 else 1)"
    using checkDailyBonus_fires(1)[OF due] by (simp add: updateStats_fields beforeBonus_frame)
  show "coffee (dev (updateStats e m))
           = coffee (beforeBonus e m) + (20 + streak (dev (updateStats e m)) * 5)"
    using checkDailyBonus_fires(2)[OF due] by (simp add: updateStats_fields)
  show "lastDailyBonus (dev (updateStats e m)) = now e"
    using checkDailyBonus_fires(3)[OF due] by (simp add: updateStats_fields)
qed

lemma checkDailyBonus_questStreak:
  assumes "now e - lastDailyBonus d \<ge> oneDay"
  shows "questStreak (checkDailyBonus e d)
           = (if streak (checkDailyBonus e d) = 1 \<or> \<not> truthy (dailyQuestsCompleted d)
              then Some 0 else questStreak d)"
  using assms by (simp add: checkDailyBonus_def generateDailyQuests_def Let_def)

lemma tick_bonus_questStreak:
  assumes "now e - lastDailyBonus (dev m) \<ge> oneDay"
  shows "questStreak (dev (updateStats e m))
           = (if streak (dev (updateStats e m)) = 1
                 \<or> \<not> truthy (dailyQuestsCompleted (beforeBonus e m))
              then Some 0 else questStreak (beforeBonus e m))"
proof -
  have due: "now e - lastDailyBonus (beforeBonus e m) \<ge> oneDay"
    using assms by (simp add: beforeBonus_frame)
  show ?thesis
    using checkDailyBonus_questStreak[OF due] by (simp add: updateStats_fields)
qed

lemma beforeBonus_away:
  "0.083 \<le> hoursPassed e (dev m) \<Longrightarrow> beforeBonus e m = applyDecay e m"
  by (simp add: beforeBonus_def Let_def)

lemma all_fresh_map:
  "\<forall>q \<in> set qs. progress q = 0 \<and> \<not> completed q \<Longrightarrow>
     map progress qs = replicate (length qs) 0 \<and> map completed qs = replicate (length qs) False"
  by (induction qs) auto

lemma validShuffle_envAt: "validShuffle (envAt t)"
  by (simp add: validShuffle_def envAt_def)

subsection \<open>No quests before the first bonus\<close>

text \<open>
  Quests are only ever created by \<open>generateDailyQuests\<close>, which \<open>checkDailyBonus\<close> calls
  right after setting \<open>lastDailyBonus = now\<close>. So a record with \<open>lastDailyBonus = 0\<close> has
  an empty quest list: the fresh default, the reset literal and a save without quests
  start that way, and every step keeps it so.
\<close>

lemma updateQuestProgress_no_quests:
  "quests d = [] \<Longrightarrow> quests (updateQuestProgress ty a d) = []"
  by (simp add: updateQuestProgress_empty)

lemma handler_quests_frame:
  "quests (snd (giveCoffee d)) = quests d" "lastDailyBonus (snd (giveCoffee d)) = lastDailyBonus d"
  "quests (snd (takeBreak d)) = quests d" "lastDailyBonus (snd (takeBreak d)) = lastDailyBonus d"
  "quests (snd (challengeCompleted s d)) = quests d"
  "lastDailyBonus (snd (challengeCompleted s d)) = lastDailyBonus d"
  "quests (snd (unlockSkill i d)) = quests d" "lastDailyBonus (snd (unlockSkill i d)) = lastDailyBonus d"
  "quests (snd (buyItem i d)) = quests d" "lastDailyBonus (snd (buyItem i d)) = lastDailyBonus d"
  "quests (snd (equipItem i d)) = quests d" "lastDailyBonus (snd (equipItem i d)) = lastDailyBonus d"
  by (auto simp: giveCoffee_def takeBreak_def challengeCompleted_def unlockSkill_def buyItem_def
      equipItem_def Let_def addXP_frame split: option.splits)

lemma quest_handlers_frame:
  "lastDailyBonus (onCodeSaved d) = lastDailyBonus d"
  "lastDailyBonus (onGitCommit d) = lastDailyBonus d"
  "lastDailyBonus (dev (updateErrorCount c m)) = lastDailyBonus (dev m)"
  "quests d = [] \<Longrightarrow> quests (onCodeSaved d) = []"
  "quests d = [] \<Longrightarrow> quests (onGitCommit d) = []"
  "quests (dev m) = [] \<Longrightarrow> quests (dev (updateErrorCount c m)) = []"
  by (simp_all add: onCodeSaved_def onGitCommit_def updateErrorCount_def Let_def addXP_frame
      updateQuestProgress_frame updateQuestProgress_no_quests)

lemma updateStats_no_quests:
  assumes "lastDailyBonus (dev m) = 0 \<longrightarrow> quests (dev m) = []" and "0 < now e"
  shows "lastDailyBonus (dev (updateStats e m)) = 0 \<longrightarrow> quests (dev (updateStats e m)) = []"
proof (cases "now e - lastDailyBonus (dev m) \<ge> oneDay")
  case True
  from tick_bonus_fields(3)[OF True] assms(2) show ?thesis by simp
next
  case False
  then have idle: "checkDailyBonus e (beforeBonus e m) = beforeBonus e m"
    by (simp add: checkDailyBonus_idle beforeBonus_frame)
  show ?thesis
  proof
    assume "lastDailyBonus (dev (updateStats e m)) = 0"
    then have "lastDailyBonus (dev m) = 0"
      by (simp add: updateStats_fields idle beforeBonus_frame)
    with assms(1) have "quests (dev m) = []" by simp
    then have "quests (beforeBonus e m) = []"
      by (simp add: beforeBonus_def Let_def updateQuestProgress_no_quests applyDecay_frame)
    then show "quests (dev (updateStats e m)) = []"
      by (simp add: updateStats_fields idle)
  qed
qed

lemma no_quests_before_first_bonus:
  assumes "lastDailyBonus (dev m) = 0 \<longrightarrow> quests (dev m) = []" and "realClock a"
  shows "lastDailyBonus (dev (perform a m)) = 0 \<longrightarrow> quests (dev (perform a m)) = []"
proof (cases a)
  case (UpdateStats e)
  with assms show ?thesis using updateStats_no_quests[of m e] by simp
next
  case (ResetProgress e yes)
  have "lastDailyBonus (dev (m\<lparr>dev := resetDeveloper (now e)\<rparr>)) = 0
      \<longrightarrow> quests (dev (m\<lparr>dev := resetDeveloper (now e)\<rparr>)) = []"
    by (simp add: resetDeveloper_def)
  moreover have "0 < now e" using ResetProgress assms(2) by simp
  ultimately have "lastDailyBonus (dev (updateStats e (m\<lparr>dev := resetDeveloper (now e)\<rparr>))) = 0
      \<longrightarrow> quests (dev (updateStats e (m\<lparr>dev := resetDeveloper (now e)\<rparr>))) = []"
    by (rule updateStats_no_quests)
  with ResetProgress assms(1) show ?thesis by (simp add: resetProgress_def)
qed (use assms(1) in \<open>simp_all add: onDeveloper_def handler_quests_frame quest_handlers_frame
      setInitialErrorCount_def completeTutorial_def renameDeveloper_def\<close>)

lemma loaded_no_quests:
  "quests (loadDeveloper t None) = []"
  "b_quests b = None \<Longrightarrow> quests (loadDeveloper t (Some b)) = []"
  "b_lastDailyBonus b = None \<Longrightarrow> lastDailyBonus (loadDeveloper t (Some b)) = 0"
  "lastDailyBonus (loadDeveloper t None) = 0"
  by (simp_all add: loadDeveloper_def defaultDeveloper_def)

subsection \<open>The stats never go below zero\<close>

text \<open>
  Every write of energy, motivation or focus is a \<open>Math.max(0, ...)\<close> or adds a
  non-negative number, so a record whose three stats are not negative keeps them so
  under every step, and the fresh default has them at 100.
\<close>

lemma statsNonneg_addXP: "statsNonneg (addXP a d) = statsNonneg d"
  by (simp add: statsNonneg_def addXP_frame)

lemma statsNonneg_updateQuestProgress: "statsNonneg (updateQuestProgress ty a d) = statsNonneg d"
  by (simp add: statsNonneg_def updateQuestProgress_frame)

lemma statsNonneg_updateStats: "statsNonneg (dev (updateStats e m))"
  by (simp add: statsNonneg_def updateStats_fields applyDecay_nonneg)

lemma statsNonneg_handlers:
  assumes "statsNonneg d"
  shows "statsNonneg (snd (giveCoffee d))" "statsNonneg (snd (takeBreak d))"
    "statsNonneg (onCodeSaved d)" "statsNonneg (onGitCommit d)"
    "statsNonneg (snd (challengeCompleted s d))" "statsNonneg (completeTutorial d)"
    "statsNonneg (snd (unlockSkill i d))" "statsNonneg (snd (buyItem i d))"
    "statsNonneg (snd (equipItem i d))" "statsNonneg (snd (renameDeveloper n d))"
  using assms
  by (auto simp: giveCoffee_def takeBreak_def onCodeSaved_def onGitCommit_def
      challengeCompleted_def completeTutorial_def unlockSkill_def buyItem_def equipItem_def
      renameDeveloper_def Let_def statsNonneg_def addXP_frame updateQuestProgress_frame
      jsAdd_nonneg split: option.splits)

lemma statsNonneg_updateErrorCount:
  assumes "statsNonneg (dev m)"
  shows "statsNonneg (dev (updateErrorCount c m))"
  using assms
  by (simp add: updateErrorCount_def Let_def statsNonneg_def addXP_frame
      updateQuestProgress_frame)

lemma statsNonneg_perform:
  assumes "statsNonneg (dev m)"
  shows "statsNonneg (dev (perform a m))"
proof (cases a)
  case (UpdateStats e)
  then show ?thesis by (simp add: statsNonneg_updateStats)
next
  case (UpdateErrorCount c)
  with assms show ?thesis by (simp add: statsNonneg_updateErrorCount)
next
  case (ResetProgress e yes)
  with assms show ?thesis by (simp add: resetProgress_def statsNonneg_updateStats)
qed (use assms in \<open>simp_all add: onDeveloper_def statsNonneg_handlers setInitialErrorCount_def\<close>)

lemma statsNonneg_fresh: "statsNonneg (loadDeveloper t None)"
  by (simp add: statsNonneg_def loadDeveloper_def defaultDeveloper_def)

subsection \<open>What the tick after a reset writes\<close>

text \<open>
  \<open>resetProgress\<close> ends with a tick on a record with \<open>lastDailyBonus = 0\<close> and
  \<open>streak = 0\<close>. At a clock value of at least one day past the epoch the daily bonus
  fires, the streak becomes 1, and \<open>generateDailyQuests\<close> writes \<open>questStreak = 0\<close> and
  \<open>dailyQuestsCompleted = false\<close>.
\<close>

lemma reset_then_tick:
  assumes "oneDay \<le> now e"
  shows "questStreak (dev (resetProgress e True m)) = Some 0"
    and "dailyQuestsCompleted (dev (resetProgress e True m)) = Some False"
    and "streak (dev (resetProgress e True m)) = 1"
    and "coffee (dev (resetProgress e True m)) = 75"
proof -
  let ?m = "m\<lparr>dev := resetDeveloper (now e)\<rparr>"
  have b: "beforeBonus e ?m = applyDecay e ?m"
    by (simp add: beforeBonus_def Let_def updateQuestProgress_empty applyDecay_frame
        resetDeveloper_def)
  have d: "lastDailyBonus (applyDecay e ?m) = 0" "streak (applyDecay e ?m) = 0"
    "coffee (applyDecay e ?m) = 50"
    by (simp_all add: applyDecay_frame resetDeveloper_def)
  show "questStreak (dev (resetProgress e True m)) = Some 0"
    and "dailyQuestsCompleted (dev (resetProgress e True m)) = Some False"
    and "streak (dev (resetProgress e True m)) = 1"
    and "coffee (dev (resetProgress e True m)) = 75"
    using assms d
    by (simp_all add: resetProgress_def updateStats_fields b checkDailyBonus_def
        generateDailyQuests_def Let_def)
qed

subsection \<open>The double product at three records\<close>

text \<open>
  At 50/20/40 the product for 50 is \<open>125.99999999999999\<close> in doubles and 126 over the
  reals; at 0/0/82 it is just under 91; at 100/36/25 the product for 5 is just under 17.
\<close>

lemma momentum_50_warm: "momentum 50 warm = 125"
  by (simp add: momentum_def warm_def defaultDeveloper_def fl_eval)

lemma exact_50_warm:
  "\<lfloor>(50::real) * (1 + energy warm / 100) * (1 + focus warm / 100) * (1 + motivation warm / 100)\<rfloor>
     = 126"
  by (simp add: warm_def defaultDeveloper_def)

lemma addXP_50_keen: "xp (addXP 50 keen) = 99" "level (addXP 50 keen) = 1"
proof -
  have "momentum 50 keen = 90"
    by (simp add: momentum_def keen_def defaultDeveloper_def fl_eval)
  then show "xp (addXP 50 keen) = 99" "level (addXP 50 keen) = 1"
    by (simp_all add: addXP_eq keen_def defaultDeveloper_def levelLoop.simps)
qed

subsection \<open>Claims\<close>

text \<open>
  C5. \<open>addXP(rawAmount)\<close> with \<open>rawAmount \<ge> 0\<close>, on a state with \<open>level \<ge> 1\<close>,
  \<open>0 \<le> xp < level * 100\<close> and stats that are not negative (the data model keeps them in
  \<open>[0, 100]\<close>, and \<open>statsNonneg_perform\<close> shows that no step takes them below 0): \<open>xp\<close>
  grows by exactly \<open>Math.floor(rawAmount * (1 + energy/100) * (1 + focus/100) *
  (1 + motivation/100))\<close>, the product being the double product that line 488 computes;
  then the loop runs, each round taking \<open>level * 100\<close> from \<open>xp\<close> and adding one level, so
  the lifetime total \<open>xp + 100 * (1 + ... + (level - 1))\<close> grows by exactly the gain;
  afterwards \<open>0 \<le> xp < level * 100\<close>, the level has not gone down, and no level is a
  maximum: every level is reached by some non-negative double reward. The witness is
  \<open>addXP(50)\<close> at 50/20/40, which gains 125.
\<close>

theorem addXP_normalizes:
  assumes "0 \<le> rawAmount" and "1 \<le> level d" and "0 \<le> xp d" and "xp d < level d * 100"
    and "0 \<le> energy d" and "0 \<le> focus d" and "0 \<le> motivation d"
  shows "momentum rawAmount d =
           \<lfloor>jsMul (jsMul (jsMul rawAmount (jsAdd 1 (jsDiv (energy d) 100)))
                          (jsAdd 1 (jsDiv (focus d) 100)))
                   (jsAdd 1 (jsDiv (motivation d) 100))\<rfloor>
       \<and> (xp (addXP rawAmount d), level (addXP rawAmount d))
           = levelLoop (xp d + momentum rawAmount d) (level d)
       \<and> levelLoop (xp d + momentum rawAmount d) (level d)
           = (if xp d + momentum rawAmount d \<ge> level d * 100
              then levelLoop (xp d + momentum rawAmount d - level d * 100) (level d + 1)
              else (xp d + momentum rawAmount d, level d))
       \<and> xp (addXP rawAmount d) + 50 * level (addXP rawAmount d) * (level (addXP rawAmount d) - 1)
           = xp d + momentum rawAmount d + 50 * level d * (level d - 1)
       \<and> 0 \<le> xp (addXP rawAmount d)
       \<and> xp (addXP rawAmount d) < level (addXP rawAmount d) * 100
       \<and> level d \<le> level (addXP rawAmount d)
       \<and> (\<forall>N. \<exists>a\<ge>0. binary64 a = a \<and> N \<le> level (addXP a d))"
proof -
  have g0: "0 \<le> momentum rawAmount d"
    using assms by (simp add: momentum_nonneg)
  have unbounded: "\<exists>a\<ge>0. binary64 a = a \<and> N \<le> level (addXP a d)" for N
  proof (cases "N \<le> 0")
    case True
    have "level d \<le> level (addXP 0 d)" by (simp add: addXP_eq levelLoop_level_mono)
    with True assms(2) have "N \<le> level (addXP 0 d)" by simp
    moreover have "binary64 0 = 0" by (simp add: binary64_def)
    ultimately show ?thesis by (intro exI[of _ 0]) simp
  next
    case False
    define n where "n = nat (3200 * N * N)"
    define a :: real where "a = 2 ^ n"
    have a0: "0 \<le> a" by (simp add: a_def)
    have dbl: "binary64 a = a" unfolding a_def by (rule binary64_pow2)
    let ?r = "levelLoop (xp d + momentum a d) (level d)"
    have "real n < 2 ^ n" by (rule of_nat_less_two_power)
    moreover have "real n = real_of_int (3200 * N * N)" by (simp add: n_def)
    ultimately have "real_of_int (50 * N * N) \<le> a / 64" by (simp add: a_def)
    then have "50 * N * N \<le> \<lfloor>a / 64\<rfloor>" by (simp only: le_floor_iff)
    moreover have "\<lfloor>a / 64\<rfloor> \<le> momentum a d" using a0 assms(5-7) by (rule momentum_ge)
    ultimately have ge: "50 * N * N \<le> momentum a d" by simp
    have "fst ?r + 50 * snd ?r * (snd ?r - 1) = xp d + momentum a d + 50 * level d * (level d - 1)"
      by (rule levelLoop_total)
    moreover have "0 \<le> level d * (level d - 1)" using assms(2) by simp
    ultimately have f3: "50 * N * N \<le> fst ?r + 50 * snd ?r * (snd ?r - 1)"
      using ge assms(3) by simp
    have f1: "1 \<le> snd ?r"
      using levelLoop_level_mono[of "level d" "xp d + momentum a d"] assms(2) by simp
    have f2: "fst ?r < snd ?r * 100" by (rule levelLoop_upper)
    have f4: "0 \<le> N" using False by simp
    have "N \<le> snd ?r" by (rule level_unbounded_aux[OF f1 f2 f3 f4])
    then have "N \<le> level (addXP a d)" by (simp add: addXP_eq)
    with a0 dbl show ?thesis by blast
  qed
  have step: "levelLoop (xp d + momentum rawAmount d) (level d)
           = (if xp d + momentum rawAmount d \<ge> level d * 100
              then levelLoop (xp d + momentum rawAmount d - level d * 100) (level d + 1)
              else (xp d + momentum rawAmount d, level d))"
    by (rule levelLoop.simps)
  have lower: "0 \<le> xp (addXP rawAmount d)"
    using g0 assms(3) by (simp add: addXP_eq levelLoop_lower)
  have upper: "xp (addXP rawAmount d) < level (addXP rawAmount d) * 100"
    by (simp add: addXP_eq levelLoop_upper)
  have total: "xp (addXP rawAmount d)
        + 50 * level (addXP rawAmount d) * (level (addXP rawAmount d) - 1)
      = xp d + momentum rawAmount d + 50 * level d * (level d - 1)"
    by (simp add: addXP_eq levelLoop_total)
  have mono: "level d \<le> level (addXP rawAmount d)"
    by (simp add: addXP_eq levelLoop_level_mono)
  have pair: "(xp (addXP rawAmount d), level (addXP rawAmount d))
      = levelLoop (xp d + momentum rawAmount d) (level d)"
    by (simp add: addXP_eq)
  have mom: "momentum rawAmount d =
      \<lfloor>jsMul (jsMul (jsMul rawAmount (jsAdd 1 (jsDiv (energy d) 100)))
                     (jsAdd 1 (jsDiv (focus d) 100)))
              (jsAdd 1 (jsDiv (motivation d) 100))\<rfloor>"
    by (simp add: momentum_def)
  from mom pair step total lower upper mono unbounded show ?thesis by (intro conjI allI)
qed

theorem addXP_normalizes_witness:
  "0 \<le> (50::real) \<and> 1 \<le> level warm \<and> 0 \<le> xp warm \<and> xp warm < level warm * 100
   \<and> 0 \<le> energy warm \<and> 0 \<le> focus warm \<and> 0 \<le> motivation warm
   \<and> momentum 50 warm = 125
   \<and> xp (addXP 50 warm) = 25 \<and> level (addXP 50 warm) = 2
   \<and> 0 \<le> xp (addXP 50 warm) \<and> xp (addXP 50 warm) < level (addXP 50 warm) * 100"
proof -
  have h: "0 \<le> (50::real)" "1 \<le> level warm" "0 \<le> xp warm" "xp warm < level warm * 100"
    "0 \<le> energy warm" "0 \<le> focus warm" "0 \<le> motivation warm"
    by (simp_all add: warm_def defaultDeveloper_def)
  have v: "momentum 50 warm = 125"
    by (simp add: momentum_50_warm)
  then have w: "xp (addXP 50 warm) = 25" "level (addXP 50 warm) = 2"
    by (simp_all add: addXP_eq warm_def defaultDeveloper_def levelLoop.simps)
  from addXP_normalizes [OF h] h v w show ?thesis by simp
qed

text \<open>
  C6 (as the code has it). \<open>challengeCompleted(300)\<close> returns and adds 30 beans, and the raw
  amount it hands to \<open>addXP\<close> is \<open>300 + 300 * 300 / 100 + 300 * 300 * 300 / 100000
  = 300 + 900 + 270 = 1470\<close>.
\<close>

theorem challengeCompleted_300:
  "fst (challengeCompleted 300 d) = 30
   \<and> coffee (snd (challengeCompleted 300 d)) = coffee d + 30
   \<and> challengeXP 300 = 300 + 900 + 270
   \<and> snd (challengeCompleted 300 d)
       = addXP 1470 (d\<lparr>coffee := coffee d + 30, motivation := min 100 (motivation d + 20)\<rparr>)"
  by (simp add: challengeCompleted_def challengeXP_def Let_def addXP_eq)

text \<open>The raw amount is not the 579 of the scenario, which takes \<open>300\<^sup>2\<close> to be 900.\<close>

theorem challengeXP_300_counterexample: "challengeXP 300 \<noteq> 579"
  by (simp add: challengeXP_def)

text \<open>
  C1 (as the code has it). \<open>health\<close> is recomputed by \<open>updateStats\<close> only: after a tick
  it is the mean of the energy, motivation and focus the tick leaves. None of the handlers
  \<open>giveCoffee\<close>, \<open>takeBreak\<close>, \<open>onCodeSaved\<close>, \<open>onGitCommit\<close>, \<open>updateErrorCount\<close> and
  \<open>challengeCompleted\<close> calls \<open>updateStats\<close> or writes \<open>health\<close>: each returns with the
  \<open>health\<close> it found, whatever it did to the three stats.
\<close>

theorem health_only_by_tick:
  "health (dev (updateStats e m))
     = (energy (dev (updateStats e m)) + motivation (dev (updateStats e m))
        + focus (dev (updateStats e m))) / 3
   \<and> health (snd (giveCoffee d)) = health d
   \<and> health (snd (takeBreak d)) = health d
   \<and> health (onCodeSaved d) = health d
   \<and> health (onGitCommit d) = health d
   \<and> health (dev (updateErrorCount c m)) = health (dev m)
   \<and> health (snd (challengeCompleted score d)) = health d"
proof -
  have "health (dev (updateStats e m))
     = (energy (dev (updateStats e m)) + motivation (dev (updateStats e m))
        + focus (dev (updateStats e m))) / 3"
    by (simp add: updateStats_fields)
  moreover have "health (snd (giveCoffee d)) = health d"
    by (simp add: giveCoffee_def Let_def addXP_frame)
  moreover have "health (snd (takeBreak d)) = health d"
    by (simp add: takeBreak_def Let_def addXP_frame)
  moreover have "health (onCodeSaved d) = health d"
    by (simp add: onCodeSaved_def Let_def addXP_frame updateQuestProgress_frame)
  moreover have "health (onGitCommit d) = health d"
    by (simp add: onGitCommit_def Let_def addXP_frame updateQuestProgress_frame)
  moreover have "health (dev (updateErrorCount c m)) = health (dev m)"
    by (simp add: updateErrorCount_def Let_def addXP_frame updateQuestProgress_frame)
  moreover have "health (snd (challengeCompleted score d)) = health d"
    by (simp add: challengeCompleted_def Let_def addXP_frame)
  ultimately show ?thesis by blast
qed

text \<open>
  A cup of coffee at 50/50/50 with \<open>health = 50\<close> leaves energy 85, focus 70, motivation 60
  and \<open>health\<close> still 50, not their mean.
\<close>

theorem giveCoffee_health_counterexample:
  "health (snd (giveCoffee d50))
     \<noteq> (energy (snd (giveCoffee d50)) + motivation (snd (giveCoffee d50))
        + focus (snd (giveCoffee d50))) / 3"
proof -
  have "jsAdd 50 35 = 85" "jsAdd 50 20 = 70" "jsAdd 50 10 = 60"
    by (simp_all add: fl_eval)
  then show ?thesis
    by (simp add: giveCoffee_def Let_def addXP_frame d50_def defaultDeveloper_def)
qed

text \<open>
  C2 (as the code has it). A second tick at the same clock value never changes focus.
  With no linter error reported it changes neither energy, motivation nor health. With
  \<open>lastErrorCount > 0\<close> the linter stress of lines 193-197 is charged again: energy and
  motivation each lose \<open>lastErrorCount * 0.05\<close>, down to 0 at most.
\<close>

theorem second_tick:
  assumes "now e' = now e"
  shows "focus (dev (updateStats e' (updateStats e m))) = focus (dev (updateStats e m))
    \<and> (lastErrorCount m \<le> 0 \<longrightarrow>
         energy (dev (updateStats e' (updateStats e m))) = energy (dev (updateStats e m))
       \<and> motivation (dev (updateStats e' (updateStats e m))) = motivation (dev (updateStats e m))
       \<and> health (dev (updateStats e' (updateStats e m))) = health (dev (updateStats e m)))
    \<and> (lastErrorCount m > 0 \<longrightarrow>
         energy (dev (updateStats e' (updateStats e m)))
           = max 0 (energy (dev (updateStats e m)) - real_of_int (lastErrorCount m) * 0.05)
       \<and> motivation (dev (updateStats e' (updateStats e m)))
           = max 0 (motivation (dev (updateStats e m)) - real_of_int (lastErrorCount m) * 0.05))"
proof -
  let ?m1 = "updateStats e m"
  have h0: "hoursPassed e' (dev ?m1) = 0"
    using assms by (simp add: hoursPassed_def updateStats_fields)
  have nn: "0 \<le> energy (dev ?m1)" "0 \<le> motivation (dev ?m1)" "0 \<le> focus (dev ?m1)"
    by (simp_all add: updateStats_fields applyDecay_nonneg)
  have c: "lastErrorCount ?m1 = lastErrorCount m" by (simp add: updateStats_fields)
  have f: "focus (applyDecay e' ?m1) = focus (dev ?m1)"
    using h0 nn by (simp add: applyDecay_def Let_def)
  have calm: "energy (applyDecay e' ?m1) = energy (dev ?m1)"
      "motivation (applyDecay e' ?m1) = motivation (dev ?m1)" if "lastErrorCount m \<le> 0"
    using h0 nn c that by (simp_all add: applyDecay_def Let_def)
  have stress: "energy (applyDecay e' ?m1)
        = max 0 (energy (dev ?m1) - real_of_int (lastErrorCount m) * 0.05)"
      "motivation (applyDecay e' ?m1)
        = max 0 (motivation (dev ?m1) - real_of_int (lastErrorCount m) * 0.05)"
      if "lastErrorCount m > 0"
    using h0 nn c that by (simp_all add: applyDecay_def Let_def)
  have hm: "health (dev ?m1) = (energy (dev ?m1) + motivation (dev ?m1) + focus (dev ?m1)) / 3"
    by (simp add: updateStats_fields)
  have out: "energy (dev (updateStats e' ?m1)) = energy (applyDecay e' ?m1)"
    "motivation (dev (updateStats e' ?m1)) = motivation (applyDecay e' ?m1)"
    "focus (dev (updateStats e' ?m1)) = focus (applyDecay e' ?m1)"
    "health (dev (updateStats e' ?m1))
       = (energy (applyDecay e' ?m1) + motivation (applyDecay e' ?m1)
          + focus (applyDecay e' ?m1)) / 3"
    by (rule updateStats_fields)+
  show ?thesis
    unfolding out using f calm stress hm by auto
qed

theorem second_tick_witness:
  "now (envAt day0) = now (envAt day0)
   \<and> lastErrorCount calm \<le> 0
   \<and> energy (dev (updateStats (envAt day0) (updateStats (envAt day0) calm)))
       = energy (dev (updateStats (envAt day0) calm))
   \<and> motivation (dev (updateStats (envAt day0) (updateStats (envAt day0) calm)))
       = motivation (dev (updateStats (envAt day0) calm))
   \<and> health (dev (updateStats (envAt day0) (updateStats (envAt day0) calm)))
       = health (dev (updateStats (envAt day0) calm))
   \<and> focus (dev (updateStats (envAt day0) (updateStats (envAt day0) calm)))
       = focus (dev (updateStats (envAt day0) calm))
   \<and> lastErrorCount withOneError > 0
   \<and> energy (dev (updateStats (envAt day0) withOneError)) = 1999 / 20
   \<and> energy (dev (updateStats (envAt day0) (updateStats (envAt day0) withOneError))) = 999 / 10"
proof -
  have c: "lastErrorCount calm = 0" "lastErrorCount withOneError = 1"
    by (simp_all add: calm_def withOneError_def)
  have v: "energy (dev (updateStats (envAt day0) withOneError)) = 1999 / 20"
    by (simp add: updateStats_fields applyDecay_def hoursPassed_def Let_def withOneError_def
        defaultDeveloper_def envAt_def)
  from second_tick [of "envAt day0" "envAt day0" calm]
    second_tick [of "envAt day0" "envAt day0" withOneError] c v
  show ?thesis by simp
qed

text \<open>With one error reported, the second tick at the same instant lowers energy again.\<close>

theorem second_tick_counterexample:
  "energy (dev (updateStats (envAt day0) (updateStats (envAt day0) withOneError)))
     \<noteq> energy (dev (updateStats (envAt day0) withOneError))"
proof -
  have "energy (dev (updateStats (envAt day0) withOneError)) = 1999 / 20"
    by (simp add: updateStats_fields applyDecay_def hoursPassed_def Let_def withOneError_def
        defaultDeveloper_def envAt_def)
  moreover have "lastUpdated (dev (updateStats (envAt day0) withOneError)) = now (envAt day0)"
    "lastErrorCount (updateStats (envAt day0) withOneError) = 1"
    by (simp_all add: updateStats_fields withOneError_def)
  ultimately show ?thesis
    by (simp add: updateStats_fields [of "envAt day0" "updateStats (envAt day0) withOneError"]
        applyDecay_def hoursPassed_def Let_def)
qed

text \<open>
  C3 (as the code has it). Under every operation other than \<open>resetProgress\<close> the skills
  and the inventory lose no element and the level does not go down. The login streak and
  the quest streak do not go down either, unless the operation is a tick whose daily bonus
  fires (\<open>now - lastDailyBonus \<ge> 24h\<close>). On such a tick \<open>checkDailyBonus\<close> sets the streak
  to \<open>streak + 1\<close> when the login is consecutive (\<open>lastDailyBonus > 0\<close> and less than 48h
  back) and to 1 otherwise (line 241); \<open>generateDailyQuests\<close> then sets \<open>questStreak = 0\<close>
  when that streak is 1 or \<open>dailyQuestsCompleted\<close> is not set at that moment (line 256),
  and otherwise leaves \<open>questStreak\<close> at the value it has then, which is not below its
  value before the tick.
\<close>

theorem monotone_steps:
  assumes "\<not> isReset a"
  shows "set (skills (dev m)) \<subseteq> set (skills (dev (perform a m)))
    \<and> set (inventory (dev m)) \<subseteq> set (inventory (dev (perform a m)))
    \<and> level (dev m) \<le> level (dev (perform a m))
    \<and> (\<not> firesDailyBonus a m \<longrightarrow>
          streak (dev m) \<le> streak (dev (perform a m))
        \<and> orZero (questStreak (dev m)) \<le> orZero (questStreak (dev (perform a m))))
    \<and> (firesDailyBonus (UpdateStats e) m \<longrightarrow>
          streak (dev (perform (UpdateStats e) m))
            = (if 0 < lastDailyBonus (dev m) \<and> now e - lastDailyBonus (dev m) < twoDays
               then streak (dev m) + 1 else 1)
        \<and> questStreak (dev (perform (UpdateStats e) m))
            = (if streak (dev (perform (UpdateStats e) m)) = 1
                  \<or> \<not> truthy (dailyQuestsCompleted (beforeBonus e m))
               then Some 0 else questStreak (beforeBonus e m))
        \<and> orZero (questStreak (dev m)) \<le> orZero (questStreak (beforeBonus e m)))"
proof -
  have general: "set (skills (dev m)) \<subseteq> set (skills (dev (perform a m)))
    \<and> set (inventory (dev m)) \<subseteq> set (inventory (dev (perform a m)))
    \<and> level (dev m) \<le> level (dev (perform a m))
    \<and> (\<not> firesDailyBonus a m \<longrightarrow>
          streak (dev m) \<le> streak (dev (perform a m))
        \<and> orZero (questStreak (dev m)) \<le> orZero (questStreak (dev (perform a m))))"
  proof (cases a)
    case (UpdateStats e)
    then show ?thesis
      using updateStats_idle[of e m] by (simp add: updateStats_keeps)
  next
    case GiveCoffee
    then show ?thesis by (simp add: onDeveloper_def giveCoffee_keeps)
  next
    case TakeBreak
    then show ?thesis by (simp add: onDeveloper_def takeBreak_keeps)
  next
    case OnCodeSaved
    then show ?thesis by (simp add: onDeveloper_def onCodeSaved_keeps)
  next
    case OnGitCommit
    then show ?thesis by (simp add: onDeveloper_def onGitCommit_keeps)
  next
    case (SetInitialErrorCount c)
    then show ?thesis by (simp add: setInitialErrorCount_def)
  next
    case (UpdateErrorCount c)
    then show ?thesis by (simp add: updateErrorCount_keeps)
  next
    case CompleteTutorial
    then show ?thesis by (simp add: onDeveloper_def completeTutorial_def)
  next
    case (UnlockSkill i)
    then show ?thesis by (simp add: onDeveloper_def unlockSkill_keeps)
  next
    case (BuyItem i)
    then show ?thesis by (simp add: onDeveloper_def buyItem_keeps)
  next
    case (EquipItem i)
    then show ?thesis by (simp add: onDeveloper_def equipItem_keeps)
  next
    case (ChallengeCompleted s)
    then show ?thesis by (simp add: onDeveloper_def challengeCompleted_keeps)
  next
    case (RenameDeveloper n)
    then show ?thesis by (simp add: onDeveloper_def renameDeveloper_def)
  next
    case (ResetProgress e yes)
    with assms show ?thesis by simp
  qed
  have firing: "firesDailyBonus (UpdateStats e) m \<longrightarrow>
          streak (dev (perform (UpdateStats e) m))
            = (if 0 < lastDailyBonus (dev m) \<and> now e - lastDailyBonus (dev m) < twoDays
               then streak (dev m) + 1 else 1)
        \<and> questStreak (dev (perform (UpdateStats e) m))
            = (if streak (dev (perform (UpdateStats e) m)) = 1
                  \<or> \<not> truthy (dailyQuestsCompleted (beforeBonus e m))
               then Some 0 else questStreak (beforeBonus e m))
        \<and> orZero (questStreak (dev m)) \<le> orZero (questStreak (beforeBonus e m))"
  proof
    assume "firesDailyBonus (UpdateStats e) m"
    then have due: "now e - lastDailyBonus (dev m) \<ge> oneDay" by simp
    from tick_bonus_fields(1)[OF due] tick_bonus_questStreak[OF due] beforeBonus_questStreak[of m e]
    show "streak (dev (perform (UpdateStats e) m))
            = (if 0 < lastDailyBonus (dev m) \<and> now e - lastDailyBonus (dev m) < twoDays
               then streak (dev m) + 1 else 1)
        \<and> questStreak (dev (perform (UpdateStats e) m))
            = (if streak (dev (perform (UpdateStats e) m)) = 1
                  \<or> \<not> truthy (dailyQuestsCompleted (beforeBonus e m))
               then Some 0 else questStreak (beforeBonus e m))
        \<and> orZero (questStreak (dev m)) \<le> orZero (questStreak (beforeBonus e m))"
      by simp
  qed
  from general firing show ?thesis by blast
qed

theorem monotone_steps_witness:
  "\<not> isReset OnGitCommit \<and> \<not> firesDailyBonus OnGitCommit veteranM
   \<and> set (skills (dev veteranM)) \<subseteq> set (skills (dev (perform OnGitCommit veteranM)))
   \<and> set (inventory (dev veteranM)) \<subseteq> set (inventory (dev (perform OnGitCommit veteranM)))
   \<and> level (dev veteranM) \<le> level (dev (perform OnGitCommit veteranM))
   \<and> streak (dev veteranM) \<le> streak (dev (perform OnGitCommit veteranM))
   \<and> orZero (questStreak (dev veteranM))
       \<le> orZero (questStreak (dev (perform OnGitCommit veteranM)))
   \<and> firesDailyBonus (UpdateStats (envAt (day0 + oneDay + 3600000))) veteranM
   \<and> streak (dev veteranM) = 5
   \<and> streak (dev (perform (UpdateStats (envAt (day0 + oneDay + 3600000))) veteranM)) = 6
   \<and> questStreak (dev veteranM) = Some 3
   \<and> questStreak (dev (perform (UpdateStats (envAt (day0 + oneDay + 3600000))) veteranM))
       = Some 3"
proof -
  let ?e = "envAt (day0 + oneDay + 3600000)"
  have f: "firesDailyBonus (UpdateStats ?e) veteranM"
    by (simp add: envAt_def veteranM_def veteran_def)
  have v: "streak (dev veteranM) = 5" "questStreak (dev veteranM) = Some 3"
    "lastDailyBonus (dev veteranM) = day0" "0 < day0" "(3600000::int) < oneDay"
    "now ?e = day0 + oneDay + 3600000" "twoDays = oneDay + oneDay"
    by (simp_all add: veteranM_def veteran_def defaultDeveloper_def day0_def oneDay_def
        twoDays_def envAt_def)
  have away: "0.083 \<le> hoursPassed ?e (dev veteranM)"
    by (simp add: hoursPassed_def envAt_def veteranM_def veteran_def defaultDeveloper_def
        oneDay_def day0_def)
  have bb: "beforeBonus ?e veteranM = applyDecay ?e veteranM"
    by (rule beforeBonus_away[OF away])
  have b: "dailyQuestsCompleted (beforeBonus ?e veteranM) = Some True"
    "questStreak (beforeBonus ?e veteranM) = Some 3"
    unfolding bb by (simp_all add: applyDecay_frame veteranM_def veteran_def)
  from monotone_steps [of OnGitCommit veteranM ?e] f v b show ?thesis
    by (simp add: truthy_def)
qed

text \<open>
  Three days after the last bonus, one tick takes a login streak of 5 to 1 and a quest
  streak of 3 to 0.
\<close>

theorem streak_reset_counterexample:
  "\<not> isReset (UpdateStats (envAt (day0 + 3 * oneDay)))
   \<and> streak (dev (perform (UpdateStats (envAt (day0 + 3 * oneDay))) veteranM))
       < streak (dev veteranM)
   \<and> orZero (questStreak (dev (perform (UpdateStats (envAt (day0 + 3 * oneDay))) veteranM)))
       < orZero (questStreak (dev veteranM))"
  by (simp add: updateStats_fields beforeBonus_frame checkDailyBonus_def generateDailyQuests_def
      Let_def veteranM_def veteran_def defaultDeveloper_def envAt_def oneDay_def twoDays_def
      day0_def orZero_def truthy_def)

text \<open>
  C4 (as the code has it). When a tick runs with \<open>now - lastDailyBonus \<ge> 24h\<close>,
  \<open>checkDailyBonus\<close> first settles the streak: it adds one if the last bonus time is
  positive and less than 48h back, and sets it to 1 otherwise. It then adds
  \<open>20 + streak * 5\<close> beans with the streak it has just set, on top of what the record holds
  when it is called (\<open>beforeBonus\<close>: the coffee before the tick when the quest list is
  empty), sets \<open>lastDailyBonus = now\<close>, and replaces the quest list by three quests made
  from the first three templates of the shuffled catalog of eight: three different
  templates of the catalog, each quest at progress 0 and not completed.
\<close>

theorem daily_bonus:
  assumes "now e - lastDailyBonus (dev m) \<ge> oneDay" and "validShuffle e"
  shows "streak (dev (updateStats e m))
           = (if 0 < lastDailyBonus (dev m) \<and> now e - lastDailyBonus (dev m) < twoDays
              then streak (dev m) + 1 else 1)
    \<and> coffee (dev (updateStats e m))
           = coffee (beforeBonus e m) + (20 + streak (dev (updateStats e m)) * 5)
    \<and> (quests (dev m) = [] \<longrightarrow>
         coffee (dev (updateStats e m))
           = coffee (dev m) + (20 + streak (dev (updateStats e m)) * 5))
    \<and> lastDailyBonus (dev (updateStats e m)) = now e
    \<and> length (quests (dev (updateStats e m))) = 3
    \<and> map templateOf (quests (dev (updateStats e m))) = take 3 (shuffled e)
    \<and> distinct (map templateOf (quests (dev (updateStats e m))))
    \<and> set (map templateOf (quests (dev (updateStats e m)))) \<subseteq> set templates
    \<and> length templates = 8
    \<and> (\<forall>q \<in> set (quests (dev (updateStats e m))). progress q = 0 \<and> \<not> completed q)"
  using tick_bonus_fields[OF assms(1)] tick_bonus_quests[OF assms] templates_distinct(2)
    beforeBonus_empty[of m e]
  by simp

theorem daily_bonus_witness:
  "now (envAt (day0 + oneDay + 3600000)) - lastDailyBonus (dev veteranM) \<ge> oneDay
   \<and> validShuffle (envAt (day0 + oneDay + 3600000))
   \<and> quests (dev veteranM) = []
   \<and> streak (dev (updateStats (envAt (day0 + oneDay + 3600000)) veteranM)) = 6
   \<and> coffee (dev (updateStats (envAt (day0 + oneDay + 3600000)) veteranM)) = 90
   \<and> lastDailyBonus (dev (updateStats (envAt (day0 + oneDay + 3600000)) veteranM))
       = day0 + oneDay + 3600000
   \<and> length (quests (dev (updateStats (envAt (day0 + oneDay + 3600000)) veteranM))) = 3
   \<and> map progress (quests (dev (updateStats (envAt (day0 + oneDay + 3600000)) veteranM)))
       = [0, 0, 0]
   \<and> map completed (quests (dev (updateStats (envAt (day0 + oneDay + 3600000)) veteranM)))
       = [False, False, False]"
proof -
  have h: "now (envAt (day0 + oneDay + 3600000)) - lastDailyBonus (dev veteranM) \<ge> oneDay"
    by (simp add: envAt_def veteranM_def veteran_def)
  have v: "quests (dev veteranM) = []" "streak (dev veteranM) = 5" "coffee (dev veteranM) = 40"
    "lastDailyBonus (dev veteranM) = day0" "0 < day0" "(3600000::int) < oneDay"
    "now (envAt (day0 + oneDay + 3600000)) = day0 + oneDay + 3600000" "twoDays = oneDay + oneDay"
    by (simp_all add: veteranM_def veteran_def defaultDeveloper_def day0_def oneDay_def
        twoDays_def envAt_def)
  note t = daily_bonus [OF h validShuffle_envAt]
  from t have "\<forall>q \<in> set (quests (dev (updateStats (envAt (day0 + oneDay + 3600000)) veteranM))).
      progress q = 0 \<and> \<not> completed q"
    by blast
  from all_fresh_map [OF this] t h v validShuffle_envAt show ?thesis
    by (simp add: numeral_3_eq_3)
qed

text \<open>
  A day and an hour after the last bonus, on a streak of 5, the award is \<open>20 + 6 * 5\<close>,
  not \<open>20 + 5 * 5\<close>.
\<close>

theorem bonus_uses_new_streak_counterexample:
  "now (envAt (day0 + oneDay + 3600000)) - lastDailyBonus veteran \<ge> oneDay
   \<and> coffee (checkDailyBonus (envAt (day0 + oneDay + 3600000)) veteran)
       \<noteq> coffee veteran + (20 + streak veteran * 5)"
  by (simp add: checkDailyBonus_def generateDailyQuests_def Let_def veteran_def
      defaultDeveloper_def envAt_def oneDay_def twoDays_def day0_def)

text \<open>
  C9. For every record with \<open>lastDailyBonus = 0\<close>, a tick at a clock value of at least
  one day past the epoch (as every \<open>Date.now()\<close> is) fires the daily bonus: the streak is
  set to 1, not incremented; the bonus is exactly 25 beans on top of what the record holds
  when \<open>checkDailyBonus\<close> is called; \<open>lastDailyBonus\<close> becomes \<open>now\<close>; and three fresh
  quests from three different templates are generated. Every such record that the engine
  builds has an empty quest list (\<open>no_quests_before_first_bonus\<close>), and then the tick as
  a whole raises coffee by exactly 25. The witness is the constructor with nothing
  persisted.
\<close>

theorem first_tick_bonus:
  assumes "lastDailyBonus (dev m) = 0" and "oneDay \<le> now e" and "validShuffle e"
  shows "streak (dev (updateStats e m)) = 1
    \<and> lastDailyBonus (dev (updateStats e m)) = now e
    \<and> coffee (dev (updateStats e m)) = coffee (beforeBonus e m) + 25
    \<and> (quests (dev m) = [] \<longrightarrow> coffee (dev (updateStats e m)) = coffee (dev m) + 25)
    \<and> length (quests (dev (updateStats e m))) = 3
    \<and> distinct (map templateOf (quests (dev (updateStats e m))))
    \<and> set (map templateOf (quests (dev (updateStats e m)))) \<subseteq> set templates
    \<and> (\<forall>q \<in> set (quests (dev (updateStats e m))). progress q = 0 \<and> \<not> completed q)"
proof -
  have due: "now e - lastDailyBonus (dev m) \<ge> oneDay" using assms(1,2) by simp
  show ?thesis
    using tick_bonus_fields[OF due] tick_bonus_quests[OF due assms(3)] assms(1)
      beforeBonus_empty[of m e]
    by simp
qed

theorem first_tick_bonus_witness:
  "lastDailyBonus (loadDeveloper day0 None) = 0 \<and> oneDay \<le> now (envAt day0)
   \<and> validShuffle (envAt day0) \<and> quests (loadDeveloper day0 None) = []
   \<and> streak (dev (construct (envAt day0) None)) = 1
   \<and> coffee (dev (construct (envAt day0) None)) = 75
   \<and> lastDailyBonus (dev (construct (envAt day0) None)) = day0
   \<and> length (quests (dev (construct (envAt day0) None))) = 3
   \<and> map progress (quests (dev (construct (envAt day0) None))) = [0, 0, 0]
   \<and> map completed (quests (dev (construct (envAt day0) None))) = [False, False, False]"
proof -
  let ?m = "\<lparr>dev = loadDeveloper (now (envAt day0)) None, lastErrorCount = 0\<rparr>"
  have h: "lastDailyBonus (dev ?m) = 0" "oneDay \<le> now (envAt day0)"
    by (simp_all add: loaded_no_quests envAt_def day0_def oneDay_def)
  have v: "quests (dev ?m) = []" "coffee (dev ?m) = 50" "now (envAt day0) = day0"
    by (simp_all add: loadDeveloper_def defaultDeveloper_def envAt_def)
  note t = first_tick_bonus [OF h validShuffle_envAt]
  from t have "\<forall>q \<in> set (quests (dev (updateStats (envAt day0) ?m))).
      progress q = 0 \<and> \<not> completed q"
    by blast
  from all_fresh_map [OF this] t h v validShuffle_envAt
  show ?thesis by (simp add: construct_def numeral_3_eq_3)
qed

text \<open>
  C10. A \<open>giveCoffee\<close> with at least 10 beans succeeds, and its \<open>addXP(5)\<close> runs on the
  record that already holds the raised and clamped energy, focus and motivation: the XP
  it adds before levelling is \<open>Math.floor(5 * (1 + e'/100) * (1 + f'/100) * (1 + m'/100))\<close>,
  the double product of line 488 over the boosted values \<open>e'\<close>, \<open>f'\<close>, \<open>m'\<close>. At 65/16/15
  the boosted values are 100/36/25 and the gain is 16, where the values before the
  coffee would give 11.
\<close>

theorem giveCoffee_momentum_after_boost:
  assumes "10 \<le> coffee d"
  shows "let e' = min 100 (jsAdd (energy d)
                    (if ''caffeine_tolerance'' \<in> set (skills d) then 52 else 35));
             f' = min 100 (jsAdd (focus d) 20);
             m' = min 100 (jsAdd (motivation d) 10);
             g = \<lfloor>jsMul (jsMul (jsMul 5 (jsAdd 1 (jsDiv e' 100))) (jsAdd 1 (jsDiv f' 100)))
                        (jsAdd 1 (jsDiv m' 100))\<rfloor>;
             d' = snd (giveCoffee d)
         in fst (giveCoffee d)
          \<and> coffee d' = coffee d - 10
          \<and> energy d' = e' \<and> focus d' = f' \<and> motivation d' = m'
          \<and> (xp d', level d') = levelLoop (xp d + g) (level d)
          \<and> xp d' + 50 * level d' * (level d' - 1) = xp d + 50 * level d * (level d - 1) + g
          \<and> (xp d + g < level d * 100 \<longrightarrow> xp d' = xp d + g \<and> level d' = level d)"
proof -
  define e' where "e' = min 100 (jsAdd (energy d)
      (if ''caffeine_tolerance'' \<in> set (skills d) then 52 else 35))"
  define f' where "f' = min 100 (jsAdd (focus d) 20)"
  define m' where "m' = min 100 (jsAdd (motivation d) 10)"
  define g where "g = \<lfloor>jsMul (jsMul (jsMul 5 (jsAdd 1 (jsDiv e' 100))) (jsAdd 1 (jsDiv f' 100)))
      (jsAdd 1 (jsDiv m' 100))\<rfloor>"
  define b where "b = d\<lparr>coffee := coffee d - 10, energy := e', focus := f', motivation := m'\<rparr>"
  have gc: "giveCoffee d = (True, addXP 5 b)"
    using assms by (simp add: giveCoffee_def Let_def b_def e'_def f'_def m'_def)
  have mom: "momentum 5 b = g"
    by (simp add: momentum_def b_def g_def)
  have x: "xp (addXP 5 b) = fst (levelLoop (xp d + g) (level d))"
    "level (addXP 5 b) = snd (levelLoop (xp d + g) (level d))"
    using mom by (simp_all add: addXP_eq b_def)
  have fr: "coffee (addXP 5 b) = coffee d - 10" "energy (addXP 5 b) = e'"
    "focus (addXP 5 b) = f'" "motivation (addXP 5 b) = m'"
    by (simp_all add: addXP_frame b_def)
  have tot: "fst (levelLoop (xp d + g) (level d))
      + 50 * snd (levelLoop (xp d + g) (level d)) * (snd (levelLoop (xp d + g) (level d)) - 1)
      = xp d + 50 * level d * (level d - 1) + g"
    using levelLoop_total[of "xp d + g" "level d"] by simp
  have stay: "xp d + g < level d * 100 \<longrightarrow>
      fst (levelLoop (xp d + g) (level d)) = xp d + g \<and> snd (levelLoop (xp d + g) (level d)) = level d"
    by (simp add: levelLoop_stay)
  show ?thesis
    unfolding Let_def e'_def[symmetric] f'_def[symmetric] m'_def[symmetric] g_def[symmetric]
    using tot stay by (simp add: gc x fr)
qed

theorem giveCoffee_momentum_after_boost_witness:
  "10 \<le> coffee drowsy
   \<and> fst (giveCoffee drowsy)
   \<and> energy (snd (giveCoffee drowsy)) = 100 \<and> focus (snd (giveCoffee drowsy)) = 36
   \<and> motivation (snd (giveCoffee drowsy)) = 25
   \<and> xp drowsy = 0 \<and> xp (snd (giveCoffee drowsy)) = 16 \<and> level (snd (giveCoffee drowsy)) = 1
   \<and> momentum 5 drowsy = 11"
proof -
  have h: "10 \<le> coffee drowsy" by (simp add: drowsy_def defaultDeveloper_def)
  have v: "energy drowsy = 65" "focus drowsy = 16" "motivation drowsy = 15" "xp drowsy = 0"
    "level drowsy = 1" "skills drowsy = []" "coffee drowsy = 50"
    by (simp_all add: drowsy_def defaultDeveloper_def)
  have a: "jsAdd 65 35 = 100" "jsAdd 16 20 = 36" "jsAdd 15 10 = 25"
    by (simp_all add: fl_eval)
  have g: "\<lfloor>jsMul (jsMul (jsMul 5 (jsAdd 1 (jsDiv 100 100))) (jsAdd 1 (jsDiv 36 100)))
      (jsAdd 1 (jsDiv 25 100))\<rfloor> = 16"
    by (simp add: fl_eval)
  have p: "momentum 5 drowsy = 11"
    by (simp add: momentum_def v fl_eval)
  have l: "levelLoop 16 1 = (16, 1)"
    by (simp add: levelLoop.simps)
  from giveCoffee_momentum_after_boost [OF h] v a g p l show ?thesis
    by (simp add: Let_def)
qed

text \<open>
  C7 (what the code does). The literal that \<open>resetProgress\<close> assigns is the creation
  default without its last three properties. \<open>tutorialCompleted\<close> is still \<open>undefined\<close>
  after the tick that ends the reset, where creation gives \<open>false\<close>; \<open>questStreak\<close> and
  \<open>dailyQuestsCompleted\<close> are \<open>undefined\<close> in the literal, where creation gives \<open>0\<close> and
  \<open>false\<close>.
\<close>

theorem resetProgress_drops_fields:
  "tutorialCompleted (dev (resetProgress e True m)) = None
   \<and> tutorialCompleted (loadDeveloper t None) = Some False
   \<and> questStreak (resetDeveloper t) = None
   \<and> questStreak (loadDeveloper t None) = Some 0
   \<and> dailyQuestsCompleted (resetDeveloper t) = None
   \<and> dailyQuestsCompleted (loadDeveloper t None) = Some False
   \<and> resetDeveloper t = (loadDeveloper t None)\<lparr>questStreak := None,
        dailyQuestsCompleted := None, tutorialCompleted := None\<rparr>"
  by (simp add: resetProgress_def updateStats_fields resetDeveloper_def loadDeveloper_def
      defaultDeveloper_def)

text \<open>
  C8. \<open>loadDeveloper\<close> has no failing branch: it returns a record for every blob. Each of
  the eight later fields that the blob lacks gets its default (empty list, 0, \<open>false\<close>);
  each one the blob has keeps its value; the eleven fields of the first release are taken
  as they are; and with nothing persisted the result is the full default record.
\<close>

theorem loadDeveloper_backfills:
  "(b_inventory b = None \<longrightarrow> inventory (loadDeveloper t (Some b)) = [])
   \<and> (b_lastDailyBonus b = None \<longrightarrow> lastDailyBonus (loadDeveloper t (Some b)) = 0)
   \<and> (b_streak b = None \<longrightarrow> streak (loadDeveloper t (Some b)) = 0)
   \<and> (b_skills b = None \<longrightarrow> skills (loadDeveloper t (Some b)) = [])
   \<and> (b_quests b = None \<longrightarrow> quests (loadDeveloper t (Some b)) = [])
   \<and> (b_questStreak b = None \<longrightarrow> questStreak (loadDeveloper t (Some b)) = Some 0)
   \<and> (b_dailyQuestsCompleted b = None \<longrightarrow>
        dailyQuestsCompleted (loadDeveloper t (Some b)) = Some False)
   \<and> (b_tutorialCompleted b = None \<longrightarrow>
        tutorialCompleted (loadDeveloper t (Some b)) = Some False)
   \<and> (\<forall>v. b_inventory b = Some v \<longrightarrow> inventory (loadDeveloper t (Some b)) = v)
   \<and> (\<forall>v. b_lastDailyBonus b = Some v \<longrightarrow> lastDailyBonus (loadDeveloper t (Some b)) = v)
   \<and> (\<forall>v. b_streak b = Some v \<longrightarrow> streak (loadDeveloper t (Some b)) = v)
   \<and> (\<forall>v. b_skills b = Some v \<longrightarrow> skills (loadDeveloper t (Some b)) = v)
   \<and> (\<forall>v. b_quests b = Some v \<longrightarrow> quests (loadDeveloper t (Some b)) = v)
   \<and> (\<forall>v. b_questStreak b = Some v \<longrightarrow> questStreak (loadDeveloper t (Some b)) = Some v)
   \<and> (\<forall>v. b_dailyQuestsCompleted b = Some v \<longrightarrow>
        dailyQuestsCompleted (loadDeveloper t (Some b)) = Some v)
   \<and> (\<forall>v. b_tutorialCompleted b = Some v \<longrightarrow>
        tutorialCompleted (loadDeveloper t (Some b)) = Some v)
   \<and> energy (loadDeveloper t (Some b)) = b_energy b
   \<and> motivation (loadDeveloper t (Some b)) = b_motivation b
   \<and> focus (loadDeveloper t (Some b)) = b_focus b
   \<and> health (loadDeveloper t (Some b)) = b_health b
   \<and> xp (loadDeveloper t (Some b)) = b_xp b
   \<and> level (loadDeveloper t (Some b)) = b_level b
   \<and> lastUpdated (loadDeveloper t (Some b)) = b_lastUpdated b
   \<and> mood (loadDeveloper t (Some b)) = b_mood b
   \<and> role (loadDeveloper t (Some b)) = b_role b
   \<and> name (loadDeveloper t (Some b)) = b_name b
   \<and> coffee (loadDeveloper t (Some b)) = b_coffee b
   \<and> loadDeveloper t None =
       \<lparr>energy = 100, motivation = 100, focus = 100, health = 100, xp = 0, level = 1,
        lastUpdated = t, mood = Productive, role = ''U+1F468 U+200D U+1F4BB'', name = ''Dev'',
        coffee = 50, skills = [], inventory = [], lastDailyBonus = 0, streak = 0, quests = [],
        questStreak = Some 0, dailyQuestsCompleted = Some False,
        tutorialCompleted = Some False\<rparr>"
  by (simp add: loadDeveloper_def defaultDeveloper_def)

theorem loadDeveloper_backfills_witness:
  "b_inventory legacyBlob = None \<and> b_tutorialCompleted legacyBlob = None
   \<and> loadDeveloper 0 (Some legacyBlob) =
       \<lparr>energy = 80, motivation = 70, focus = 60, health = 70, xp = 40, level = 3,
        lastUpdated = day0, mood = Neutral, role = ''U+1F468 U+200D U+1F4BB'', name = ''Ada'',
        coffee = 12, skills = [], inventory = [], lastDailyBonus = 0, streak = 0, quests = [],
        questStreak = Some 0, dailyQuestsCompleted = Some False,
        tutorialCompleted = Some False\<rparr>
   \<and> b_inventory fullBlob = Some [''skin_space'']
   \<and> inventory (loadDeveloper 0 (Some fullBlob)) = [''skin_space'']
   \<and> skills (loadDeveloper 0 (Some fullBlob)) = [''iron_focus'']
   \<and> lastDailyBonus (loadDeveloper 0 (Some fullBlob)) = day0
   \<and> streak (loadDeveloper 0 (Some fullBlob)) = 4
   \<and> quests (loadDeveloper 0 (Some fullBlob)) = []
   \<and> questStreak (loadDeveloper 0 (Some fullBlob)) = Some 2
   \<and> dailyQuestsCompleted (loadDeveloper 0 (Some fullBlob)) = Some True
   \<and> tutorialCompleted (loadDeveloper 0 (Some fullBlob)) = Some True"
proof -
  have l: "b_inventory legacyBlob = None" "b_lastDailyBonus legacyBlob = None"
    "b_streak legacyBlob = None" "b_skills legacyBlob = None" "b_quests legacyBlob = None"
    "b_questStreak legacyBlob = None" "b_dailyQuestsCompleted legacyBlob = None"
    "b_tutorialCompleted legacyBlob = None"
    "b_energy legacyBlob = 80" "b_motivation legacyBlob = 70" "b_focus legacyBlob = 60"
    "b_health legacyBlob = 70" "b_xp legacyBlob = 40" "b_level legacyBlob = 3"
    "b_lastUpdated legacyBlob = day0" "b_mood legacyBlob = Neutral"
    "b_role legacyBlob = ''U+1F468 U+200D U+1F4BB''" "b_name legacyBlob = ''Ada''"
    "b_coffee legacyBlob = 12"
    by (simp_all add: legacyBlob_def)
  have f: "b_inventory fullBlob = Some [''skin_space'']" "b_lastDailyBonus fullBlob = Some day0"
    "b_streak fullBlob = Some 4" "b_skills fullBlob = Some [''iron_focus'']"
    "b_quests fullBlob = Some []" "b_questStreak fullBlob = Some 2"
    "b_dailyQuestsCompleted fullBlob = Some True" "b_tutorialCompleted fullBlob = Some True"
    by (simp_all add: fullBlob_def)
  have eqI: "x = \<lparr>energy = energy x, motivation = motivation x, focus = focus x, health = health x,
      xp = xp x, level = level x, lastUpdated = lastUpdated x, mood = mood x, role = role x,
      name = name x, coffee = coffee x, skills = skills x, inventory = inventory x,
      lastDailyBonus = lastDailyBonus x, streak = streak x, quests = quests x,
      questStreak = questStreak x, dailyQuestsCompleted = dailyQuestsCompleted x,
      tutorialCompleted = tutorialCompleted x\<rparr>" for x :: developer
    by simp
  from loadDeveloper_backfills [of legacyBlob 0] l
  have "loadDeveloper 0 (Some legacyBlob) =
       \<lparr>energy = 80, motivation = 70, focus = 60, health = 70, xp = 40, level = 3,
        lastUpdated = day0, mood = Neutral, role = ''U+1F468 U+200D U+1F4BB'', name = ''Ada'',
        coffee = 12, skills = [], inventory = [], lastDailyBonus = 0, streak = 0, quests = [],
        questStreak = Some 0, dailyQuestsCompleted = Some False,
        tutorialCompleted = Some False\<rparr>"
    by (subst eqI) simp
  with loadDeveloper_backfills [of fullBlob 0] l f show ?thesis by auto
qed

end
